theory Spec2Isabelle
  imports Complex_Main "HOL-Library.AList" "HOL-Library.List_Lexorder"
begin

section \<open>The table: cells, rows, frames\<close>

text \<open>
  \<^verbatim>\<open>app.py\<close> is a script over one pandas DataFrame \<^verbatim>\<open>df\<close>. A cell of the table is an
  integer of an int64 column, a float of a float64 column, a text or the missing value
  NaN. A float is held by its exact value, so fractional cells, their comparison and
  their truncation by \<^verbatim>\<open>int\<close> are as in the code; the rounding of float64 arithmetic is not
  modelled, and the statements below that speak of a sum are about int64 cells, whose
  sums wrap around at \<open>2^63\<close> as they do in numpy. A row is the list of its (column name,
  cell) pairs in column order, a frame is its column names and its rows in file order.
  A numeric column of a pandas table has one dtype: its cells are all integers (int64),
  or all floats or NaN (float64).
\<close>

datatype cell = I64 int | F64 rat | Str string | NaN

datatype error =
    EmptyDataError
  | FileNotFoundError
  | KeyError "string list"
  | ValueError
  | TypeError
  | NameError

type_synonym row = "(string \<times> cell) list"

record frame =
  columns :: "string list"
  rows :: "row list"

text \<open>Sequencing of steps that may raise: the first exception ends the computation.\<close>

definition and_then :: "error + 'a \<Rightarrow> ('a \<Rightarrow> error + 'b) \<Rightarrow> error + 'b" where
  "and_then m f = (case m of Inl e \<Rightarrow> Inl e | Inr x \<Rightarrow> f x)"

fun traverse :: "('a \<Rightarrow> error + 'b) \<Rightarrow> 'a list \<Rightarrow> error + 'b list" where
  "traverse f [] = Inr []"
| "traverse f (x # xs) =
     (case f x of Inl e \<Rightarrow> Inl e
      | Inr y \<Rightarrow> (case traverse f xs of Inl e \<Rightarrow> Inl e | Inr ys \<Rightarrow> Inr (y # ys)))"

text \<open>The cell of a row under a column name; a name the row does not hold reads as NaN.\<close>

definition cell_at :: "row \<Rightarrow> string \<Rightarrow> cell" where
  "cell_at r c = (case map_of r c of Some v \<Rightarrow> v | None \<Rightarrow> NaN)"

text \<open>\<^verbatim>\<open>df[c]\<close>: the column as a series, KeyError when the frame has no such column.\<close>

definition getitem :: "frame \<Rightarrow> string \<Rightarrow> error + cell list" where
  "getitem f c =
     (if c \<in> set (columns f) then Inr (map (\<lambda>r. cell_at r c) (rows f))
      else Inl (KeyError [c]))"

text \<open>\<^verbatim>\<open>df[[c1, ..., cn]]\<close>: a new frame of the listed columns; KeyError names the absent ones.\<close>

definition getitems :: "frame \<Rightarrow> string list \<Rightarrow> error + frame" where
  "getitems f cs =
     (if set cs \<subseteq> set (columns f)
      then Inr \<lparr>columns = cs, rows = map (\<lambda>r. map (\<lambda>c. (c, cell_at r c)) cs) (rows f)\<rparr>
      else Inl (KeyError (filter (\<lambda>c. c \<notin> set (columns f)) cs)))"

text \<open>
  \<^verbatim>\<open>df[c] = values\<close>: an existing column is overwritten in place, a new one is appended;
  pandas raises ValueError when the number of values is not the number of rows.
\<close>

definition setitem :: "frame \<Rightarrow> string \<Rightarrow> cell list \<Rightarrow> error + frame" where
  "setitem f c vs =
     (if length vs \<noteq> length (rows f) then Inl ValueError
      else Inr \<lparr>columns = (if c \<in> set (columns f) then columns f else columns f @ [c]),
                rows = map (\<lambda>(r, v). AList.update c v r) (zip (rows f) vs)\<rparr>)"

text \<open>
  \<^verbatim>\<open>df[mask]\<close> with a boolean series: a new frame (pandas copies) of the rows whose mask
  entry is True.
\<close>

definition boolean_index :: "frame \<Rightarrow> bool list \<Rightarrow> frame" where
  "boolean_index f m = \<lparr>columns = columns f, rows = map fst (filter snd (zip (rows f) m))\<rparr>"

section \<open>Series statistics\<close>

text \<open>
  The number a cell holds, if it holds one.
\<close>

fun num_value :: "cell \<Rightarrow> rat option" where
  "num_value (I64 n) = Some (of_int n)"
| "num_value (F64 q) = Some q"
| "num_value (Str s) = None"
| "num_value NaN = None"

text \<open>
  The numeric statistics of pandas skip NaN. A text cell in a numeric position is
  reported as TypeError (joining of texts by \<^verbatim>\<open>sum\<close> is not modelled).
\<close>

fun numeric :: "cell list \<Rightarrow> error + rat list" where
  "numeric [] = Inr []"
| "numeric (I64 n # cs) = (case numeric cs of Inl e \<Rightarrow> Inl e | Inr ns \<Rightarrow> Inr (of_int n # ns))"
| "numeric (F64 q # cs) = (case numeric cs of Inl e \<Rightarrow> Inl e | Inr ns \<Rightarrow> Inr (q # ns))"
| "numeric (NaN # cs) = numeric cs"
| "numeric (Str s # cs) = Inl TypeError"

text \<open>
  A series is of dtype int64 when all its cells are integers; \<open>ints_of\<close> gives them. An
  int64 result is the true result reduced to the range from \<open>-2^63\<close> to \<open>2^63 - 1\<close>.
\<close>

fun ints_of :: "cell list \<Rightarrow> int list option" where
  "ints_of [] = Some []"
| "ints_of (I64 n # cs) = (case ints_of cs of None \<Rightarrow> None | Some ns \<Rightarrow> Some (n # ns))"
| "ints_of (F64 q # cs) = None"
| "ints_of (Str s # cs) = None"
| "ints_of (NaN # cs) = None"

definition wrap64 :: "int \<Rightarrow> int" where
  "wrap64 n = (n + 2 ^ 63) mod 2 ^ 64 - 2 ^ 63"

text \<open>
  \<^verbatim>\<open>Series.sum()\<close>: on an int64 series the sum in int64, otherwise the sum of the numbers
  present as a float; 0 when there is none.
\<close>

definition series_sum :: "cell list \<Rightarrow> error + cell" where
  "series_sum cs =
     (case ints_of cs of
        Some ns \<Rightarrow> Inr (I64 (wrap64 (sum_list ns)))
      | None \<Rightarrow> (case numeric cs of Inl e \<Rightarrow> Inl e | Inr qs \<Rightarrow> Inr (F64 (sum_list qs))))"

text \<open>\<^verbatim>\<open>Series.mean()\<close>: a float, NaN when no number is present.\<close>

definition series_mean :: "cell list \<Rightarrow> error + cell" where
  "series_mean cs =
     (case numeric cs of Inl e \<Rightarrow> Inl e
      | Inr qs \<Rightarrow> Inr (if qs = [] then NaN else F64 (sum_list qs / of_nat (length qs))))"

text \<open>
  \<^verbatim>\<open>Series.min()\<close>, \<^verbatim>\<open>Series.max()\<close>: an integer on an int64 series, otherwise a float
  over the numbers present; NaN when there is none.
\<close>

definition series_min :: "cell list \<Rightarrow> error + cell" where
  "series_min cs =
     (case ints_of cs of
        Some ns \<Rightarrow> Inr (if ns = [] then NaN else I64 (Min (set ns)))
      | None \<Rightarrow> (case numeric cs of Inl e \<Rightarrow> Inl e
                 | Inr qs \<Rightarrow> Inr (if qs = [] then NaN else F64 (Min (set qs)))))"

definition series_max :: "cell list \<Rightarrow> error + cell" where
  "series_max cs =
     (case ints_of cs of
        Some ns \<Rightarrow> Inr (if ns = [] then NaN else I64 (Max (set ns)))
      | None \<Rightarrow> (case numeric cs of Inl e \<Rightarrow> Inl e
                 | Inr qs \<Rightarrow> Inr (if qs = [] then NaN else F64 (Max (set qs)))))"

text \<open>
  \<^verbatim>\<open>int(x)\<close> of a number: an integer as it is, a float truncated towards zero, ValueError
  on NaN.
\<close>

definition int_of_float :: "rat \<Rightarrow> int" where
  "int_of_float q = (if 0 \<le> q then \<lfloor>q\<rfloor> else \<lceil>q\<rceil>)"

fun py_int :: "cell \<Rightarrow> error + int" where
  "py_int (I64 n) = Inr n"
| "py_int (F64 q) = Inr (int_of_float q)"
| "py_int NaN = Inl ValueError"
| "py_int (Str s) = Inl ValueError"

text \<open>
  Comparison of a series with a number, cell by cell: NaN compares False, a text cell
  raises TypeError.
\<close>

fun cmp_cell :: "(rat \<Rightarrow> bool) \<Rightarrow> cell \<Rightarrow> error + bool" where
  "cmp_cell p (I64 n) = Inr (p (of_int n))"
| "cmp_cell p (F64 q) = Inr (p q)"
| "cmp_cell p NaN = Inr False"
| "cmp_cell p (Str s) = Inl TypeError"

text \<open>\<^verbatim>\<open>mask.mean()\<close> and \<^verbatim>\<open>mask.sum()\<close> of a boolean series.\<close>

definition mask_mean :: "bool list \<Rightarrow> cell" where
  "mask_mean bs =
     (if bs = [] then NaN
      else F64 (of_nat (length (filter id bs)) / of_nat (length bs)))"

definition mask_sum :: "bool list \<Rightarrow> int" where
  "mask_sum bs = int (length (filter id bs))"

text \<open>\<^verbatim>\<open>x * 100\<close> and \<^verbatim>\<open>round(x, 2)\<close> of a float; NaN stays NaN. Rounding is to the even neighbour.\<close>

fun times100 :: "cell \<Rightarrow> cell" where
  "times100 (F64 q) = F64 (q * 100)"
| "times100 (I64 n) = I64 (n * 100)"
| "times100 c = c"

definition round_half_even :: "rat \<Rightarrow> int" where
  "round_half_even y =
     (let f = \<lfloor>y\<rfloor>; d = y - of_int f
      in if d < 1 / 2 then f else if 1 / 2 < d then f + 1
         else if even f then f else f + 1)"

fun py_round2 :: "cell \<Rightarrow> cell" where
  "py_round2 (F64 q) = F64 (of_int (round_half_even (q * 100)) / 100)"
| "py_round2 c = c"

text \<open>\<^verbatim>\<open>DataFrame.sum(axis=1)\<close>: one sum per row; \<^verbatim>\<open>DataFrame.sum()\<close>: one sum per column.\<close>

definition sum_axis1 :: "frame \<Rightarrow> error + cell list" where
  "sum_axis1 f = traverse (\<lambda>r. series_sum (map (cell_at r) (columns f))) (rows f)"

definition sum_axis0 :: "frame \<Rightarrow> error + (string \<times> cell) list" where
  "sum_axis0 f =
     traverse (\<lambda>c. case series_sum (map (\<lambda>r. cell_at r c) (rows f)) of
                      Inl e \<Rightarrow> Inl e | Inr n \<Rightarrow> Inr (c, n)) (columns f)"

section \<open>Column lists and feature engineering (lines 54 to 62)\<close>

definition product_cols :: "string list" where
  "product_cols = [''MntWines'', ''MntFruits'', ''MntMeatProducts'', ''MntFishProducts'',
                   ''MntSweetProducts'', ''MntGoldProds'']"

definition purchase_channels :: "string list" where
  "purchase_channels = [''NumWebPurchases'', ''NumCatalogPurchases'', ''NumStorePurchases'']"

definition cmp_cols :: "string list" where
  "cmp_cols = [''AcceptedCmp1'', ''AcceptedCmp2'', ''AcceptedCmp3'', ''AcceptedCmp4'',
               ''AcceptedCmp5'']"

text \<open>
  \<^verbatim>\<open>pd.to_datetime\<close> is the date parser of pandas; the script only passes a series to it.
  It is a parameter \<open>tdt\<close> of the model: from the cells of a series to ValueError or to one
  timestamp per cell (None for NaT). A timestamp carries its calendar year and month and
  its day number, the count of days since a fixed epoch.
\<close>

record timestamp =
  year :: int
  month :: int
  day_number :: int

type_synonym to_datetime = "cell list \<Rightarrow> error + timestamp option list"

text \<open>
  An integer read off each timestamp (\<^verbatim>\<open>.dt.year\<close>, \<^verbatim>\<open>.dt.month\<close>, \<^verbatim>\<open>.dt.days\<close>): an
  integer series when no timestamp is missing, otherwise a float series with NaN.
\<close>

definition int_series :: "(timestamp \<Rightarrow> int) \<Rightarrow> timestamp option list \<Rightarrow> cell list" where
  "int_series g ts =
     (if list_all (\<lambda>t. t \<noteq> None) ts
      then map (\<lambda>t. case t of None \<Rightarrow> NaN | Some d \<Rightarrow> I64 (g d)) ts
      else map (\<lambda>t. case t of None \<Rightarrow> NaN | Some d \<Rightarrow> F64 (of_int (g d))) ts)"

definition dt_year :: "timestamp option list \<Rightarrow> cell list" where
  "dt_year ts = int_series year ts"

definition dt_month :: "timestamp option list \<Rightarrow> cell list" where
  "dt_month ts = int_series month ts"

definition feature_engineering :: "to_datetime \<Rightarrow> frame \<Rightarrow> error + frame" where
  "feature_engineering tdt df0 =
     and_then (getitem df0 ''Dt_Customer'') (\<lambda>d1.
     and_then (tdt d1) (\<lambda>t1.
     and_then (setitem df0 ''Join_Year'' (dt_year t1)) (\<lambda>df1.
     and_then (getitem df1 ''Dt_Customer'') (\<lambda>d2.
     and_then (tdt d2) (\<lambda>t2.
     and_then (setitem df1 ''Join_Month'' (dt_month t2)) (\<lambda>df2.
     and_then (getitems df2 product_cols) (\<lambda>p.
     and_then (sum_axis1 p) (\<lambda>s1.
     and_then (setitem df2 ''Total_Spend'' s1) (\<lambda>df3.
     and_then (getitems df3 cmp_cols) (\<lambda>q.
     and_then (sum_axis1 q) (\<lambda>s2.
     setitem df3 ''Campaign_Accepted_Count'' s2)))))))))))"

section \<open>Loading (lines 42 to 51)\<close>

text \<open>
  \<^verbatim>\<open>load_data\<close> hands its argument to \<^verbatim>\<open>pd.read_csv\<close> and returns what that returns. The
  argument is the uploaded file or the path \<^verbatim>\<open>clean_data.csv\<close>. The parser of pandas is a
  parameter \<open>rd\<close> of the model: from the argument to the exception it raises or to the
  table it reads.
\<close>

datatype 'u file_arg = Uploaded 'u | Path string

type_synonym 'u read_csv = "'u file_arg \<Rightarrow> error + frame"

definition load_data :: "'u read_csv \<Rightarrow> 'u file_arg \<Rightarrow> error + frame" where
  "load_data rd src = rd src"

section \<open>Grouping, ranking, mode, argmax\<close>

text \<open>
  \<^verbatim>\<open>f.groupby(ks)[v].sum()\<close>: rows with a NaN key are dropped, the groups are the key
  tuples that occur, in ascending lexicographic order, each with the sum of its \<open>v\<close> cells.
  Keys are numeric here, as Join_Year and Join_Month are by construction; a text key is
  reported as TypeError.
\<close>

fun key_of_cells :: "cell list \<Rightarrow> error + rat list option" where
  "key_of_cells [] = Inr (Some [])"
| "key_of_cells (I64 n # cs) =
     (case key_of_cells cs of Inl e \<Rightarrow> Inl e | Inr None \<Rightarrow> Inr None
      | Inr (Some k) \<Rightarrow> Inr (Some (of_int n # k)))"
| "key_of_cells (F64 q # cs) =
     (case key_of_cells cs of Inl e \<Rightarrow> Inl e | Inr None \<Rightarrow> Inr None
      | Inr (Some k) \<Rightarrow> Inr (Some (q # k)))"
| "key_of_cells (NaN # cs) = (case key_of_cells cs of Inl e \<Rightarrow> Inl e | Inr k \<Rightarrow> Inr None)"
| "key_of_cells (Str s # cs) = Inl TypeError"

definition observed_keys :: "rat list option list \<Rightarrow> rat list list" where
  "observed_keys keys = sort (remdups (concat (map (\<lambda>k. case k of None \<Rightarrow> [] | Some x \<Rightarrow> [x]) keys)))"

definition groupby_sum :: "frame \<Rightarrow> string list \<Rightarrow> string \<Rightarrow> error + (rat list \<times> cell) list" where
  "groupby_sum f ks v =
     and_then (getitems f ks) (\<lambda>kf.
     and_then (traverse (\<lambda>r. key_of_cells (map snd r)) (rows kf)) (\<lambda>keys.
     and_then (getitem f v) (\<lambda>vals.
     traverse (\<lambda>k. case series_sum (map snd (filter (\<lambda>kv. fst kv = Some k) (zip keys vals))) of
                      Inl e \<Rightarrow> Inl e | Inr n \<Rightarrow> Inr (k, n))
              (observed_keys keys))))"

text \<open>\<^verbatim>\<open>sort_values(ascending=False)\<close>: by value, largest first, ties in their given order.\<close>

definition sort_values_desc :: "(string \<times> cell) list \<Rightarrow> (string \<times> cell) list" where
  "sort_values_desc xs =
     sort_key (\<lambda>cv. case num_value (snd cv) of None \<Rightarrow> 0 | Some q \<Rightarrow> - q) xs"

text \<open>
  \<^verbatim>\<open>Series.mode()\<close>: NaN is dropped, the values of highest frequency are returned in
  ascending order; \<^verbatim>\<open>[0]\<close> reads the first of them and raises KeyError on an empty result.
\<close>

definition series_mode :: "cell list \<Rightarrow> error + rat list" where
  "series_mode cs =
     (case numeric cs of Inl e \<Rightarrow> Inl e
      | Inr ns \<Rightarrow>
          Inr (if ns = [] then []
               else sort (remdups (filter (\<lambda>v. count_list ns v = Max (set (map (count_list ns) ns))) ns))))"

definition item0 :: "rat list \<Rightarrow> error + rat" where
  "item0 xs = (case xs of [] \<Rightarrow> Inl (KeyError [''0'']) | x # _ \<Rightarrow> Inr x)"

text \<open>
  \<^verbatim>\<open>DataFrame.mean()\<close> gives one mean per column; \<^verbatim>\<open>idxmax()\<close> is the label of the first
  largest mean, NaN skipped, and an error when every mean is NaN.
\<close>

definition mean_axis0 :: "frame \<Rightarrow> error + (string \<times> cell) list" where
  "mean_axis0 f =
     traverse (\<lambda>c. case series_mean (map (\<lambda>r. cell_at r c) (rows f)) of
                      Inl e \<Rightarrow> Inl e | Inr q \<Rightarrow> Inr (c, q)) (columns f)"

fun first_max :: "string \<times> rat \<Rightarrow> (string \<times> cell) list \<Rightarrow> string" where
  "first_max (c, q) [] = c"
| "first_max (c, q) ((c', v) # xs) =
     (case num_value v of None \<Rightarrow> first_max (c, q) xs
      | Some q' \<Rightarrow> (if q < q' then first_max (c', q') xs else first_max (c, q) xs))"

fun idxmax :: "(string \<times> cell) list \<Rightarrow> error + string" where
  "idxmax [] = Inl ValueError"
| "idxmax ((c, v) # xs) =
     (case num_value v of None \<Rightarrow> idxmax xs | Some q \<Rightarrow> Inr (first_max (c, q) xs))"

section \<open>The script state and the tabs\<close>

text \<open>
  The script holds three frames: \<^verbatim>\<open>df\<close>, the table after feature engineering, and two
  frames built from it by boolean indexing, \<^verbatim>\<open>filtered_df\<close> (line 84) and \<^verbatim>\<open>spend_df\<close>
  (line 117). Boolean indexing and \<^verbatim>\<open>.copy()\<close> build new frames, so an assignment to a
  column of \<^verbatim>\<open>filtered_df\<close> or \<^verbatim>\<open>spend_df\<close> writes to that frame and not to \<^verbatim>\<open>df\<close>. None is a
  variable not yet bound. An uncaught exception ends the run of the script.
\<close>

record state =
  df :: frame
  filtered_df :: "frame option"
  spend_df :: "frame option"

text \<open>\<^verbatim>\<open>(f[c] >= lo) & (f[c] <= hi)\<close>, both ends inclusive.\<close>

definition range_mask :: "frame \<Rightarrow> string \<Rightarrow> int \<Rightarrow> int \<Rightarrow> error + bool list" where
  "range_mask f c lo hi =
     and_then (getitem f c) (\<lambda>s1.
     and_then (traverse (cmp_cell (\<lambda>q. of_int lo \<le> q)) s1) (\<lambda>m1.
     and_then (getitem f c) (\<lambda>s2.
     and_then (traverse (cmp_cell (\<lambda>q. q \<le> of_int hi)) s2) (\<lambda>m2.
     Inr (map (\<lambda>(a, b). a \<and> b) (zip m1 m2))))))"

text \<open>\<^verbatim>\<open>int(f[c].min()), int(f[c].max())\<close>, the bounds of a slider (lines 82 and 115).\<close>

definition slider_bounds :: "frame \<Rightarrow> string \<Rightarrow> error + int \<times> int" where
  "slider_bounds f c =
     and_then (getitem f c) (\<lambda>s1.
     and_then (series_min s1) (\<lambda>mn.
     and_then (py_int mn) (\<lambda>lo.
     and_then (getitem f c) (\<lambda>s2.
     and_then (series_max s2) (\<lambda>mx.
     and_then (py_int mx) (\<lambda>hi.
     Inr (lo, hi)))))))"

text \<open>
  Customer tab, lines 82 to 89. The slider value is an input: None is the untouched
  slider, whose value is the pair of its bounds; Some is the range the user has set.
\<close>

record customer_kpis =
  total_customers :: nat
  average_income :: int
  campaign_response_rate :: cell

definition slider_value :: "(int \<times> int) option \<Rightarrow> int \<times> int \<Rightarrow> int \<times> int" where
  "slider_value slider start = (case slider of None \<Rightarrow> start | Some r \<Rightarrow> r)"

definition customer_tab :: "state \<Rightarrow> (int \<times> int) option \<Rightarrow> error + state \<times> customer_kpis" where
  "customer_tab s slider =
     and_then (slider_bounds (df s) ''age'') (\<lambda>bounds.
     and_then (range_mask (df s) ''age'' (fst (slider_value slider bounds))
                 (snd (slider_value slider bounds))) (\<lambda>m.
     and_then (getitem (boolean_index (df s) m) ''Income'') (\<lambda>inc.
     and_then (series_mean inc) (\<lambda>mu.
     and_then (py_int mu) (\<lambda>avg.
     and_then (getitem (boolean_index (df s) m) ''Campaign_Accepted_Count'') (\<lambda>cac.
     and_then (traverse (cmp_cell (\<lambda>q. 0 < q)) cac) (\<lambda>resp.
     Inr (s\<lparr>filtered_df := Some (boolean_index (df s) m)\<rparr>,
          \<lparr>total_customers = length (rows (boolean_index (df s) m)), average_income = avg,
           campaign_response_rate = py_round2 (times100 (mask_mean resp))\<rparr>))))))))"

text \<open>
  Spending tab, lines 115 to 135. The income slider starts at (20000, 60000). Line 136
  and the charts only draw what is computed here. The checks that Streamlit itself makes
  on the arguments of a slider are not modelled.
\<close>

record spending_out =
  total_spend :: int
  avg_spend_per_customer :: int
  spend_per_product :: "(string \<times> cell) list"
  time_df :: "(rat list \<times> cell) list"

definition spending_tab ::
  "state \<Rightarrow> (int \<times> int) option \<Rightarrow> string \<Rightarrow> error + state \<times> spending_out" where
  "spending_tab s slider selected =
     and_then (slider_bounds (df s) ''Income'') (\<lambda>bounds.
     and_then (range_mask (df s) ''Income'' (fst (slider_value slider (20000, 60000)))
                 (snd (slider_value slider (20000, 60000)))) (\<lambda>m.
     and_then (getitem (boolean_index (df s) m) selected) (\<lambda>sel.
     and_then (setitem (boolean_index (df s) m) ''Selected_Product_Spend'' sel) (\<lambda>sdf.
     and_then (getitem sdf ''Total_Spend'') (\<lambda>ts1.
     and_then (series_sum ts1) (\<lambda>sum1.
     and_then (py_int sum1) (\<lambda>total.
     and_then (getitem sdf ''Total_Spend'') (\<lambda>ts2.
     and_then (series_mean ts2) (\<lambda>mu.
     and_then (py_int mu) (\<lambda>avg.
     and_then (getitems sdf product_cols) (\<lambda>p.
     and_then (sum_axis0 p) (\<lambda>totals.
     and_then (groupby_sum sdf [''Join_Year'', ''Join_Month''] ''Total_Spend'') (\<lambda>g.
     Inr (s\<lparr>spend_df := Some sdf\<rparr>,
          \<lparr>total_spend = total, avg_spend_per_customer = avg,
           spend_per_product = sort_values_desc totals, time_df = g\<rparr>))))))))))))))"

text \<open>Campaigns tab, lines 147 to 165.\<close>

record campaigns_out =
  accepted_campaigns :: int
  responded_customers :: nat
  campaign_totals :: "(string \<times> cell) list"
  channel_totals :: "(string \<times> cell) list"

fun responded_label :: "cell \<Rightarrow> error + cell" where
  "responded_label (I64 n) = Inr (Str (if 0 < n then ''Yes'' else ''No''))"
| "responded_label (F64 q) = Inr (Str (if 0 < q then ''Yes'' else ''No''))"
| "responded_label NaN = Inr (Str ''No'')"
| "responded_label (Str s) = Inl TypeError"

definition campaigns_tab :: "state \<Rightarrow> error + state \<times> campaigns_out" where
  "campaigns_tab s =
     (case filtered_df s of None \<Rightarrow> Inl NameError
      | Some fdf \<Rightarrow>
     and_then (getitems fdf cmp_cols) (\<lambda>fc.
     and_then (sum_axis0 fc) (\<lambda>per_cmp.
     and_then (series_sum (map snd per_cmp)) (\<lambda>all_cmp.
     and_then (py_int all_cmp) (\<lambda>accepted.
     and_then (getitem fdf ''Campaign_Accepted_Count'') (\<lambda>cac.
     and_then (traverse (cmp_cell (\<lambda>q. 0 < q)) cac) (\<lambda>resp.
     and_then (getitems (df s) cmp_cols) (\<lambda>dc.
     and_then (sum_axis0 dc) (\<lambda>totals.
     and_then (getitems fdf purchase_channels) (\<lambda>pc.
     and_then (sum_axis0 pc) (\<lambda>chan.
     and_then (getitems fdf purchase_channels) (\<lambda>pc2.
     and_then (sum_axis1 pc2) (\<lambda>tcp.
     and_then (setitem fdf ''Total_Channel_Purchases'' tcp) (\<lambda>fdf1.
     and_then (getitem fdf1 ''Campaign_Accepted_Count'') (\<lambda>cac2.
     and_then (traverse responded_label cac2) (\<lambda>labels.
     and_then (setitem fdf1 ''Responded'' labels) (\<lambda>fdf2.
     Inr (s\<lparr>filtered_df := Some fdf2\<rparr>,
          \<lparr>accepted_campaigns = accepted,
           responded_customers = length (rows (boolean_index fdf resp)),
           campaign_totals = totals,
           channel_totals = sort_values_desc chan\<rparr>))))))))))))))))))"

section \<open>The chatbot (lines 175 to 222)\<close>

datatype question =
    MostCommonAge
  | TotalCustomers
  | AverageIncome
  | TotalAndAverageSpend
  | TopProductCategory
  | SpendPerProductType
  | PreferredChannel
  | PurchasesPerChannel
  | AverageWebVisits
  | ResponseRate
  | MoreThanOneCampaign
  | ResponsesPerCampaign
  | OldVsNew

text \<open>
  An answer is the values the message is formatted from: numbers, a float (or NaN), a
  column name, or a ranked series. The formatting itself is not modelled.
\<close>

datatype answer =
    Counts "rat list"
  | Average cell
  | Column string
  | Ranking "(string \<times> cell) list"

text \<open>
  \<open>today\<close> is the day number of \<^verbatim>\<open>pd.to_datetime("today")\<close>, read from the clock when the
  last question is answered. The join dates carry no time of day, so the whole days
  between a join date and now are the difference of the day numbers.
\<close>

definition since_days :: "int \<Rightarrow> timestamp option list \<Rightarrow> cell list" where
  "since_days today ts = int_series (\<lambda>d. today - day_number d) ts"

definition chatbot_tab ::
  "to_datetime \<Rightarrow> int \<Rightarrow> state \<Rightarrow> question \<Rightarrow> error + state \<times> answer" where
  "chatbot_tab tdt today s q =
     (case q of
        MostCommonAge \<Rightarrow>
          and_then (getitem (df s) ''age'') (\<lambda>a.
          and_then (series_mode a) (\<lambda>ms.
          and_then (item0 ms) (\<lambda>m. Inr (s, Counts [m]))))
      | TotalCustomers \<Rightarrow> Inr (s, Counts [of_nat (length (rows (df s)))])
      | AverageIncome \<Rightarrow>
          and_then (getitem (df s) ''Income'') (\<lambda>inc.
          and_then (series_mean inc) (\<lambda>mu.
          and_then (py_int mu) (\<lambda>avg. Inr (s, Counts [of_int avg]))))
      | TotalAndAverageSpend \<Rightarrow>
          and_then (getitem (df s) ''Total_Spend'') (\<lambda>ts1.
          and_then (series_sum ts1) (\<lambda>sum1.
          and_then (py_int sum1) (\<lambda>total.
          and_then (getitem (df s) ''Total_Spend'') (\<lambda>ts2.
          and_then (series_mean ts2) (\<lambda>mu.
          and_then (py_int mu) (\<lambda>avg. Inr (s, Counts [of_int total, of_int avg])))))))
      | TopProductCategory \<Rightarrow>
          and_then (getitems (df s) product_cols) (\<lambda>p.
          and_then (mean_axis0 p) (\<lambda>means.
          and_then (idxmax means) (\<lambda>top. Inr (s, Column top))))
      | SpendPerProductType \<Rightarrow>
          and_then (getitems (df s) product_cols) (\<lambda>p.
          and_then (sum_axis0 p) (\<lambda>totals. Inr (s, Ranking (sort_values_desc totals))))
      | PreferredChannel \<Rightarrow>
          and_then (getitems (df s) purchase_channels) (\<lambda>p.
          and_then (mean_axis0 p) (\<lambda>means.
          and_then (idxmax means) (\<lambda>top. Inr (s, Column top))))
      | PurchasesPerChannel \<Rightarrow>
          and_then (getitems (df s) purchase_channels) (\<lambda>p.
          and_then (sum_axis0 p) (\<lambda>totals. Inr (s, Ranking (sort_values_desc totals))))
      | AverageWebVisits \<Rightarrow>
          and_then (getitem (df s) ''NumWebVisitsMonth'') (\<lambda>v.
          and_then (series_mean v) (\<lambda>mu. Inr (s, Average mu)))
      | ResponseRate \<Rightarrow>
          and_then (getitem (df s) ''Response'') (\<lambda>v.
          and_then (series_mean v) (\<lambda>mu. Inr (s, Average (times100 mu))))
      | MoreThanOneCampaign \<Rightarrow>
          and_then (getitem (df s) ''Campaign_Accepted_Count'') (\<lambda>cac.
          and_then (traverse (cmp_cell (\<lambda>q. 1 < q)) cac) (\<lambda>m.
          Inr (s, Counts [of_int (mask_sum m)])))
      | ResponsesPerCampaign \<Rightarrow>
          and_then (getitems (df s) cmp_cols) (\<lambda>p.
          and_then (sum_axis0 p) (\<lambda>totals. Inr (s, Ranking (sort_values_desc totals))))
      | OldVsNew \<Rightarrow>
          and_then (getitem (df s) ''Dt_Customer'') (\<lambda>d.
          and_then (tdt d) (\<lambda>ts.
          and_then (setitem (df s) ''Customer_Since_Days'' (since_days today ts)) (\<lambda>df1.
          and_then (getitem df1 ''Customer_Since_Days'') (\<lambda>c1.
          and_then (traverse (cmp_cell (\<lambda>q. 1000 < q)) c1) (\<lambda>old.
          and_then (getitem df1 ''Customer_Since_Days'') (\<lambda>c2.
          and_then (traverse (cmp_cell (\<lambda>q. q \<le> 1000)) c2) (\<lambda>new.
          Inr (s\<lparr>df := df1\<rparr>, Counts [of_int (mask_sum old), of_int (mask_sum new)])))))))))"

section \<open>One run of the script\<close>

text \<open>
  The widgets are the inputs of a run: the uploaded file if any, the two sliders, the
  product chosen, the question asked if the button is pressed, and the clock. Without an
  upload the script reads the path \<^verbatim>\<open>clean_data.csv\<close>. The search box of the Dataset tab is
  left empty, so that tab only shows the head of the table.
\<close>

record 'u inputs =
  uploaded_file :: "'u option"
  age_slider :: "(int \<times> int) option"
  income_slider :: "(int \<times> int) option"
  selected_product :: string
  asked :: "question option"
  clock :: int

record outputs =
  final :: state
  customer :: customer_kpis
  spending :: spending_out
  campaigns :: campaigns_out
  answered :: "answer option"

definition chosen_file :: "'u inputs \<Rightarrow> 'u file_arg" where
  "chosen_file i = (case uploaded_file i of Some f \<Rightarrow> Uploaded f | None \<Rightarrow> Path ''clean_data.csv'')"

definition script :: "'u read_csv \<Rightarrow> to_datetime \<Rightarrow> 'u inputs \<Rightarrow> error + outputs" where
  "script rd tdt i =
     and_then (load_data rd (chosen_file i)) (\<lambda>df0.
     and_then (feature_engineering tdt df0) (\<lambda>df1.
     and_then (customer_tab \<lparr>df = df1, filtered_df = None, spend_df = None\<rparr> (age_slider i)) (\<lambda>(s2, k).
     and_then (spending_tab s2 (income_slider i) (selected_product i)) (\<lambda>(s3, sp).
     and_then (campaigns_tab s3) (\<lambda>(s4, ca).
     (case asked i of
        None \<Rightarrow> Inr \<lparr>final = s4, customer = k, spending = sp, campaigns = ca, answered = None\<rparr>
      | Some q \<Rightarrow>
          and_then (chatbot_tab tdt (clock i) s4 q) (\<lambda>(s5, a).
          Inr \<lparr>final = s5, customer = k, spending = sp, campaigns = ca,
               answered = Some a\<rparr>)))))))"

section \<open>A date parser for ISO dates\<close>

text \<open>
  An instance of the date parser for the examples: texts of the form YYYY-MM-DD that name
  a day of the calendar, NaN read as NaT, anything else rejected with ValueError.
\<close>

definition digit_of :: "char \<Rightarrow> int option" where
  "digit_of c =
     (let n = (of_char c :: nat) in if 48 \<le> n \<and> n \<le> 57 then Some (int n - 48) else None)"

fun digits_value :: "int \<Rightarrow> string \<Rightarrow> int option" where
  "digits_value acc [] = Some acc"
| "digits_value acc (c # cs) =
     (case digit_of c of None \<Rightarrow> None | Some d \<Rightarrow> digits_value (10 * acc + d) cs)"

definition leap_year :: "int \<Rightarrow> bool" where
  "leap_year y = (y mod 4 = 0 \<and> (y mod 100 \<noteq> 0 \<or> y mod 400 = 0))"

definition days_in_month :: "int \<Rightarrow> int \<Rightarrow> int" where
  "days_in_month y m =
     (if m = 2 then (if leap_year y then 29 else 28)
      else if m = 4 \<or> m = 6 \<or> m = 9 \<or> m = 11 then 30 else 31)"

definition days_from_civil :: "int \<Rightarrow> int \<Rightarrow> int \<Rightarrow> int" where
  "days_from_civil y m d =
     (let y' = (if m \<le> 2 then y - 1 else y);
          era = y' div 400;
          yoe = y' - era * 400;
          doy = (153 * (if 2 < m then m - 3 else m + 9) + 2) div 5 + d - 1;
          doe = yoe * 365 + yoe div 4 - yoe div 100 + doy
      in era * 146097 + doe - 719468)"

definition iso_date :: "string \<Rightarrow> timestamp option" where
  "iso_date s =
     (if length s = 10 \<and> s ! 4 = CHR ''-'' \<and> s ! 7 = CHR ''-''
      then (case (digits_value 0 (take 4 s), digits_value 0 (take 2 (drop 5 s)),
                  digits_value 0 (drop 8 s)) of
              (Some y, Some m, Some d) \<Rightarrow>
                (if 1 \<le> m \<and> m \<le> 12 \<and> 1 \<le> d \<and> d \<le> days_in_month y m
                 then Some \<lparr>year = y, month = m, day_number = days_from_civil y m d\<rparr>
                 else None)
            | _ \<Rightarrow> None)
      else None)"

fun iso_cell :: "cell \<Rightarrow> error + timestamp option" where
  "iso_cell (Str s) = (case iso_date s of None \<Rightarrow> Inl ValueError | Some t \<Rightarrow> Inr (Some t))"
| "iso_cell NaN = Inr None"
| "iso_cell (I64 n) = Inl ValueError"
| "iso_cell (F64 q) = Inl ValueError"

definition iso_to_datetime :: to_datetime where
  "iso_to_datetime cs = traverse iso_cell cs"

section \<open>Example tables\<close>

text \<open>One customer with the spends and the campaign flags of the specification's scenarios.\<close>

definition spend_example :: frame where
  "spend_example =
     \<lparr>columns = [''Dt_Customer'', ''MntWines'', ''MntFruits'', ''MntMeatProducts'',
                 ''MntFishProducts'', ''MntSweetProducts'', ''MntGoldProds'', ''AcceptedCmp1'',
                 ''AcceptedCmp2'', ''AcceptedCmp3'', ''AcceptedCmp4'', ''AcceptedCmp5''],
      rows = [[(''Dt_Customer'', Str ''2021-01-05''), (''MntWines'', I64 100),
               (''MntFruits'', I64 10), (''MntMeatProducts'', I64 20),
               (''MntFishProducts'', I64 5), (''MntSweetProducts'', I64 5),
               (''MntGoldProds'', I64 10), (''AcceptedCmp1'', I64 1), (''AcceptedCmp2'', I64 0),
               (''AcceptedCmp3'', I64 1), (''AcceptedCmp4'', I64 0), (''AcceptedCmp5'', I64 0)]]\<rparr>"

definition spend_example_row :: row where
  "spend_example_row =
     [(''Dt_Customer'', Str ''2021-01-05''), (''MntWines'', I64 100),
      (''MntFruits'', I64 10), (''MntMeatProducts'', I64 20),
      (''MntFishProducts'', I64 5), (''MntSweetProducts'', I64 5),
      (''MntGoldProds'', I64 10), (''AcceptedCmp1'', I64 1), (''AcceptedCmp2'', I64 0),
      (''AcceptedCmp3'', I64 1), (''AcceptedCmp4'', I64 0), (''AcceptedCmp5'', I64 0),
      (''Join_Year'', I64 2021), (''Join_Month'', I64 1), (''Total_Spend'', I64 150),
      (''Campaign_Accepted_Count'', I64 2)]"

text \<open>
  One customer whose first two spends are the largest int64 and 1, before and after
  feature engineering.
\<close>

definition overflow_example :: frame where
  "overflow_example =
     \<lparr>columns = [''Dt_Customer'', ''MntWines'', ''MntFruits'', ''MntMeatProducts'',
                 ''MntFishProducts'', ''MntSweetProducts'', ''MntGoldProds'', ''AcceptedCmp1'',
                 ''AcceptedCmp2'', ''AcceptedCmp3'', ''AcceptedCmp4'', ''AcceptedCmp5''],
      rows = [[(''Dt_Customer'', Str ''2021-01-05''), (''MntWines'', I64 9223372036854775807),
               (''MntFruits'', I64 1), (''MntMeatProducts'', I64 0),
               (''MntFishProducts'', I64 0), (''MntSweetProducts'', I64 0),
               (''MntGoldProds'', I64 0), (''AcceptedCmp1'', I64 0), (''AcceptedCmp2'', I64 0),
               (''AcceptedCmp3'', I64 0), (''AcceptedCmp4'', I64 0), (''AcceptedCmp5'', I64 0)]]\<rparr>"

definition overflow_example_row :: row where
  "overflow_example_row =
     [(''Dt_Customer'', Str ''2021-01-05''), (''MntWines'', I64 9223372036854775807),
      (''MntFruits'', I64 1), (''MntMeatProducts'', I64 0),
      (''MntFishProducts'', I64 0), (''MntSweetProducts'', I64 0),
      (''MntGoldProds'', I64 0), (''AcceptedCmp1'', I64 0), (''AcceptedCmp2'', I64 0),
      (''AcceptedCmp3'', I64 0), (''AcceptedCmp4'', I64 0), (''AcceptedCmp5'', I64 0),
      (''Join_Year'', I64 2021), (''Join_Month'', I64 1),
      (''Total_Spend'', I64 (- 9223372036854775808)), (''Campaign_Accepted_Count'', I64 0)]"

text \<open>
  Four customers: the table after feature engineering, the table as it is read from the
  file, which is the first twenty columns (lemma \<open>example_loaded\<close>), and the state of the
  script before the first tab.
\<close>

definition example_columns :: "string list" where
  "example_columns =
     [''age'', ''Income'', ''Marital_Status'', ''Dt_Customer'', ''MntWines'', ''MntFruits'',
      ''MntMeatProducts'', ''MntFishProducts'', ''MntSweetProducts'', ''MntGoldProds'',
      ''NumWebPurchases'', ''NumCatalogPurchases'', ''NumStorePurchases'', ''AcceptedCmp1'',
      ''AcceptedCmp2'', ''AcceptedCmp3'', ''AcceptedCmp4'', ''AcceptedCmp5'', ''Response'',
      ''NumWebVisitsMonth'', ''Join_Year'', ''Join_Month'', ''Total_Spend'',
      ''Campaign_Accepted_Count'']"

definition example_row1 :: row where
  "example_row1 =
     [(''age'', I64 25), (''Income'', I64 20000), (''Marital_Status'', Str ''Single''),
      (''Dt_Customer'', Str ''2021-01-05''), (''MntWines'', I64 60), (''MntFruits'', I64 10),
      (''MntMeatProducts'', I64 20), (''MntFishProducts'', I64 5), (''MntSweetProducts'', I64 5),
      (''MntGoldProds'', I64 0), (''NumWebPurchases'', I64 1), (''NumCatalogPurchases'', I64 0),
      (''NumStorePurchases'', I64 2), (''AcceptedCmp1'', I64 1), (''AcceptedCmp2'', I64 0),
      (''AcceptedCmp3'', I64 1), (''AcceptedCmp4'', I64 0), (''AcceptedCmp5'', I64 0),
      (''Response'', I64 1), (''NumWebVisitsMonth'', I64 4), (''Join_Year'', I64 2021),
      (''Join_Month'', I64 1), (''Total_Spend'', I64 100), (''Campaign_Accepted_Count'', I64 2)]"

definition example_row2 :: row where
  "example_row2 =
     [(''age'', I64 30), (''Income'', I64 40000), (''Marital_Status'', Str ''Married''),
      (''Dt_Customer'', Str ''2021-01-20''), (''MntWines'', I64 150), (''MntFruits'', I64 0),
      (''MntMeatProducts'', I64 30), (''MntFishProducts'', I64 0), (''MntSweetProducts'', I64 0),
      (''MntGoldProds'', I64 20), (''NumWebPurchases'', I64 3), (''NumCatalogPurchases'', I64 1),
      (''NumStorePurchases'', I64 4), (''AcceptedCmp1'', I64 0), (''AcceptedCmp2'', I64 0),
      (''AcceptedCmp3'', I64 0), (''AcceptedCmp4'', I64 0), (''AcceptedCmp5'', I64 0),
      (''Response'', I64 0), (''NumWebVisitsMonth'', I64 6), (''Join_Year'', I64 2021),
      (''Join_Month'', I64 1), (''Total_Spend'', I64 200), (''Campaign_Accepted_Count'', I64 0)]"

definition example_row3 :: row where
  "example_row3 =
     [(''age'', I64 35), (''Income'', I64 60000), (''Marital_Status'', Str ''Married''),
      (''Dt_Customer'', Str ''2021-03-14''), (''MntWines'', I64 10), (''MntFruits'', I64 10),
      (''MntMeatProducts'', I64 10), (''MntFishProducts'', I64 10),
      (''MntSweetProducts'', I64 5), (''MntGoldProds'', I64 5), (''NumWebPurchases'', I64 0),
      (''NumCatalogPurchases'', I64 2), (''NumStorePurchases'', I64 5),
      (''AcceptedCmp1'', I64 0), (''AcceptedCmp2'', I64 0), (''AcceptedCmp3'', I64 0),
      (''AcceptedCmp4'', I64 0), (''AcceptedCmp5'', I64 0), (''Response'', I64 0),
      (''NumWebVisitsMonth'', I64 2), (''Join_Year'', I64 2021), (''Join_Month'', I64 3),
      (''Total_Spend'', I64 50), (''Campaign_Accepted_Count'', I64 0)]"

definition example_row4 :: row where
  "example_row4 =
     [(''age'', I64 40), (''Income'', I64 80000), (''Marital_Status'', Str ''Divorced''),
      (''Dt_Customer'', Str ''2019-06-01''), (''MntWines'', I64 400), (''MntFruits'', I64 20),
      (''MntMeatProducts'', I64 80), (''MntFishProducts'', I64 0), (''MntSweetProducts'', I64 0),
      (''MntGoldProds'', I64 0), (''NumWebPurchases'', I64 5), (''NumCatalogPurchases'', I64 3),
      (''NumStorePurchases'', I64 1), (''AcceptedCmp1'', I64 1), (''AcceptedCmp2'', I64 1),
      (''AcceptedCmp3'', I64 1), (''AcceptedCmp4'', I64 0), (''AcceptedCmp5'', I64 0),
      (''Response'', I64 1), (''NumWebVisitsMonth'', I64 8), (''Join_Year'', I64 2019),
      (''Join_Month'', I64 6), (''Total_Spend'', I64 500), (''Campaign_Accepted_Count'', I64 3)]"

definition example_table :: frame where
  "example_table =
     \<lparr>columns = example_columns,
      rows = [example_row1, example_row2, example_row3, example_row4]\<rparr>"

definition example_state :: state where
  "example_state = \<lparr>df = example_table, filtered_df = None, spend_df = None\<rparr>"

text \<open>Ages in which 30 and 40 tie for the highest frequency.\<close>

definition tied_ages :: frame where
  "tied_ages =
     \<lparr>columns = [''age''],
      rows = [[(''age'', I64 40)], [(''age'', I64 30)], [(''age'', I64 40)], [(''age'', I64 30)],
              [(''age'', I64 25)]]\<rparr>"

definition example_raw :: frame where
  "example_raw =
     \<lparr>columns = take 20 example_columns,
      rows = map (take 20) [example_row1, example_row2, example_row3, example_row4]\<rparr>"


text \<open>
  An instance of the CSV parser for the examples. It knows three files: the path
  \<^verbatim>\<open>clean_data.csv\<close>, which holds the four customers; an upload of the two lines
  \<^verbatim>\<open>Dt_Customer,Income\<close> and \<^verbatim>\<open>yesterday,plenty\<close>, which pandas reads as one row of two text
  cells; and an upload of no bytes, on which pandas raises EmptyDataError. Any other path
  names no file.
\<close>

datatype upload = TextCellsFile | EmptyFile

definition text_cells_table :: frame where
  "text_cells_table =
     \<lparr>columns = [''Dt_Customer'', ''Income''],
      rows = [[(''Dt_Customer'', Str ''yesterday''), (''Income'', Str ''plenty'')]]\<rparr>"

fun example_read_csv :: "upload read_csv" where
  "example_read_csv (Uploaded TextCellsFile) = Inr text_cells_table"
| "example_read_csv (Uploaded EmptyFile) = Inl EmptyDataError"
| "example_read_csv (Path p) =
     (if p = ''clean_data.csv'' then Inr example_raw else Inl FileNotFoundError)"

definition text_cells_upload :: "upload inputs" where
  "text_cells_upload =
     \<lparr>uploaded_file = Some TextCellsFile, age_slider = None, income_slider = None,
      selected_product = ''MntWines'', asked = None, clock = 19723\<rparr>"

definition no_upload :: "upload inputs" where
  "no_upload =
     \<lparr>uploaded_file = None, age_slider = None, income_slider = None,
      selected_product = ''MntWines'', asked = Some MostCommonAge, clock = 19723\<rparr>"

section \<open>Properties\<close>

subsection \<open>Sequencing, rows and columns\<close>

lemma and_then_Inr: "and_then m f = Inr y \<longleftrightarrow> (\<exists>x. m = Inr x \<and> f x = Inr y)"
  by (cases m) (simp_all add: and_then_def)

lemma traverse_list_all2: "traverse f xs = Inr ys \<Longrightarrow> list_all2 (\<lambda>x y. f x = Inr y) xs ys"
  by (induction xs arbitrary: ys) (auto split: sum.splits)

lemma cell_at_update: "cell_at (AList.update k v r) c = (if c = k then v else cell_at r c)"
  by (simp add: cell_at_def update_conv')

lemma cell_at_tabulate: "c \<in> set cs \<Longrightarrow> cell_at (map (\<lambda>c. (c, g c)) cs) c = g c"
  by (induction cs) (auto simp: cell_at_def)

lemma setitem_nth:
  assumes "setitem f c vs = Inr f'"
  shows "length (rows f') = length (rows f)"
    and "i < length (rows f) \<Longrightarrow> rows f' ! i = AList.update c (vs ! i) (rows f ! i)"
  using assms by (auto simp: setitem_def split: if_splits)

lemma row_sums_nth:
  assumes "getitems f cs = Inr p" "sum_axis1 p = Inr s"
  shows "length s = length (rows f)"
    and "i < length (rows f) \<Longrightarrow> series_sum (map (cell_at (rows f ! i)) cs) = Inr (s ! i)"
proof -
  from assms(1) have p: "columns p = cs" "rows p = map (\<lambda>r. map (\<lambda>c. (c, cell_at r c)) cs) (rows f)"
    by (auto simp: getitems_def split: if_splits)
  let ?g = "\<lambda>r. series_sum (map (cell_at r) cs)"
  have same: "map (cell_at (map (\<lambda>c. (c, cell_at r c)) cs)) cs = map (cell_at r) cs" for r
    by (simp add: cell_at_tabulate)
  from assms(2) have "list_all2 (\<lambda>x y. ?g x = Inr y) (rows p) s"
    unfolding sum_axis1_def p(1) by (rule traverse_list_all2)
  then have all: "list_all2 (\<lambda>r y. ?g r = Inr y) (rows f) s"
    by (simp add: p(2) list_all2_map1 same)
  then show "length s = length (rows f)" by (simp add: list_all2_lengthD)
  show "series_sum (map (cell_at (rows f ! i)) cs) = Inr (s ! i)" if "i < length (rows f)"
    using all that by (rule list_all2_nthD)
qed

subsection \<open>Integer and float sums\<close>

lemma wrap64_id: "- (2 ^ 63) \<le> n \<Longrightarrow> n < 2 ^ 63 \<Longrightarrow> wrap64 n = n"
  by (simp add: wrap64_def)

lemma ints_of_numeric: "ints_of cs = Some ns \<Longrightarrow> numeric cs = Inr (map of_int ns)"
proof (induction cs arbitrary: ns)
  case Nil
  then show ?case by simp
next
  case (Cons c cs)
  then show ?case by (cases c) (auto split: option.splits)
qed

lemma ints_of_map: "ints_of (map I64 ns) = Some ns"
  by (induction ns) simp_all

lemma ints_of_Some: "ints_of cs = Some ns \<Longrightarrow> cs = map I64 ns"
proof (induction cs arbitrary: ns)
  case Nil
  then show ?case by simp
next
  case (Cons c cs)
  then show ?case by (cases c) (auto split: option.splits)
qed

lemma series_sum_ints: "series_sum (map I64 ns) = Inr (I64 (wrap64 (sum_list ns)))"
  by (simp add: series_sum_def ints_of_map)

lemma series_sum_value:
  assumes "numeric cs = Inr qs"
  shows "\<exists>v. series_sum cs = Inr v
           \<and> (num_value v = Some (sum_list qs)
                \<or> (\<exists>ns. cs = map I64 ns \<and> v = I64 (wrap64 (sum_list ns))))"
proof (cases "ints_of cs")
  case None
  with assms show ?thesis by (simp add: series_sum_def)
next
  case (Some ns)
  then have "cs = map I64 ns" by (rule ints_of_Some)
  moreover from Some have "series_sum cs = Inr (I64 (wrap64 (sum_list ns)))"
    by (simp add: series_sum_def)
  ultimately show ?thesis by blast
qed

subsection \<open>Feature engineering\<close>

lemma feature_engineering_nth:
  assumes "feature_engineering tdt t = Inr t'"
  shows "length (rows t') = length (rows t)"
    and "i < length (rows t) \<Longrightarrow>
         \<exists>y m v1 v2.
           rows t' ! i = AList.update ''Campaign_Accepted_Count'' v2
                   (AList.update ''Total_Spend'' v1
                     (AList.update ''Join_Month'' m (AList.update ''Join_Year'' y (rows t ! i))))
           \<and> series_sum (map (cell_at (AList.update ''Join_Month'' m
                  (AList.update ''Join_Year'' y (rows t ! i)))) product_cols) = Inr v1
           \<and> series_sum (map (cell_at (AList.update ''Total_Spend'' v1
                     (AList.update ''Join_Month'' m (AList.update ''Join_Year'' y (rows t ! i)))))
                            cmp_cols) = Inr v2"
proof -
  from assms(1) obtain t1 df1 t2 df2 p s1 df3 q s2 where
    s: "setitem t ''Join_Year'' (dt_year t1) = Inr df1"
       "setitem df1 ''Join_Month'' (dt_month t2) = Inr df2"
       "getitems df2 product_cols = Inr p" "sum_axis1 p = Inr s1"
       "setitem df2 ''Total_Spend'' s1 = Inr df3"
       "getitems df3 cmp_cols = Inr q" "sum_axis1 q = Inr s2"
       "setitem df3 ''Campaign_Accepted_Count'' s2 = Inr t'"
    unfolding feature_engineering_def and_then_Inr by blast
  have len: "length (rows df1) = length (rows t)" "length (rows df2) = length (rows t)"
    "length (rows df3) = length (rows t)" "length (rows t') = length (rows t)"
    using setitem_nth(1)[OF s(1)] setitem_nth(1)[OF s(2)] setitem_nth(1)[OF s(5)]
      setitem_nth(1)[OF s(8)] by simp_all
  show "length (rows t') = length (rows t)" by (rule len(4))
  show "\<exists>y m v1 v2.
           rows t' ! i = AList.update ''Campaign_Accepted_Count'' v2
                   (AList.update ''Total_Spend'' v1
                     (AList.update ''Join_Month'' m (AList.update ''Join_Year'' y (rows t ! i))))
           \<and> series_sum (map (cell_at (AList.update ''Join_Month'' m
                  (AList.update ''Join_Year'' y (rows t ! i)))) product_cols) = Inr v1
           \<and> series_sum (map (cell_at (AList.update ''Total_Spend'' v1
                     (AList.update ''Join_Month'' m (AList.update ''Join_Year'' y (rows t ! i)))))
                            cmp_cols) = Inr v2"
    if i: "i < length (rows t)"
  proof -
    have r1: "rows df1 ! i = AList.update ''Join_Year'' (dt_year t1 ! i) (rows t ! i)"
      using setitem_nth(2)[OF s(1)] i by simp
    have r2: "rows df2 ! i = AList.update ''Join_Month'' (dt_month t2 ! i) (rows df1 ! i)"
      using setitem_nth(2)[OF s(2)] i len by simp
    have r3: "rows df3 ! i = AList.update ''Total_Spend'' (s1 ! i) (rows df2 ! i)"
      using setitem_nth(2)[OF s(5)] i len by simp
    have r4: "rows t' ! i = AList.update ''Campaign_Accepted_Count'' (s2 ! i) (rows df3 ! i)"
      using setitem_nth(2)[OF s(8)] i len by simp
    have v1: "series_sum (map (cell_at (rows df2 ! i)) product_cols) = Inr (s1 ! i)"
      using row_sums_nth(2)[OF s(3,4)] i len by simp
    have v2: "series_sum (map (cell_at (rows df3 ! i)) cmp_cols) = Inr (s2 ! i)"
      using row_sums_nth(2)[OF s(6,7)] i len by simp
    from r4 v1 v2 show ?thesis unfolding r3 r2 r1 by blast
  qed
qed

lemma feature_engineering_spend_example:
  "feature_engineering iso_to_datetime spend_example =
     Inr \<lparr>columns = columns spend_example @ [''Join_Year'', ''Join_Month'', ''Total_Spend'',
                                               ''Campaign_Accepted_Count''],
          rows = [spend_example_row]\<rparr>"
  by (simp add: feature_engineering_def and_then_def getitem_def getitems_def setitem_def
      sum_axis1_def series_sum_def wrap64_def cell_at_def dt_year_def dt_month_def int_series_def
      product_cols_def cmp_cols_def iso_to_datetime_def iso_date_def digit_of_def
      days_in_month_def days_from_civil_def spend_example_def spend_example_row_def)

text \<open>
  C5, as stated, fails. Line 61 sums the six product columns row by row, in int64 when
  the six columns are integer columns, and an int64 sum wraps around. A customer with the
  spends 9223372036854775807 and 1 (and four times 0) gets the Total_Spend
  -9223372036854775808, which is not the sum of the six spends.
\<close>

theorem total_spend_wraps_counterexample:
  "feature_engineering iso_to_datetime overflow_example =
     Inr \<lparr>columns = columns overflow_example @ [''Join_Year'', ''Join_Month'', ''Total_Spend'',
                                                  ''Campaign_Accepted_Count''],
          rows = [overflow_example_row]\<rparr>
   \<and> map (cell_at (rows overflow_example ! 0)) product_cols
       = [I64 9223372036854775807, I64 1, I64 0, I64 0, I64 0, I64 0]
   \<and> map (cell_at overflow_example_row) product_cols
       = [I64 9223372036854775807, I64 1, I64 0, I64 0, I64 0, I64 0]
   \<and> cell_at overflow_example_row ''Total_Spend'' = I64 (- 9223372036854775808)"
  by (simp add: feature_engineering_def and_then_def getitem_def getitems_def setitem_def
      sum_axis1_def series_sum_def wrap64_def cell_at_def dt_year_def dt_month_def int_series_def
      product_cols_def cmp_cols_def iso_to_datetime_def iso_date_def digit_of_def
      days_in_month_def days_from_civil_def overflow_example_def overflow_example_row_def)

text \<open>
  C5, amended. Feature engineering keeps the rows and their six spends, and on a row
  whose six spends are integers with a sum within the int64 range, Total_Spend is that
  sum exactly. The scenario of the specification, spends 100, 10, 20, 5, 5 and 10, gives
  150; it is the witness below. Float spends are added in float64, which this statement
  does not cover.
\<close>

theorem total_spend_is_sum_within_int64:
  assumes "feature_engineering tdt t = Inr t'" and "i < length (rows t)"
    and "cell_at (rows t ! i) ''MntWines'' = I64 wines"
    and "cell_at (rows t ! i) ''MntFruits'' = I64 fruits"
    and "cell_at (rows t ! i) ''MntMeatProducts'' = I64 meat"
    and "cell_at (rows t ! i) ''MntFishProducts'' = I64 fish"
    and "cell_at (rows t ! i) ''MntSweetProducts'' = I64 sweet"
    and "cell_at (rows t ! i) ''MntGoldProds'' = I64 gold"
    and "- (2 ^ 63) \<le> wines + fruits + meat + fish + sweet + gold"
    and "wines + fruits + meat + fish + sweet + gold < 2 ^ 63"
  shows "length (rows t') = length (rows t)
       \<and> map (cell_at (rows t' ! i)) product_cols = map (cell_at (rows t ! i)) product_cols
       \<and> cell_at (rows t' ! i) ''Total_Spend'' = I64 (wines + fruits + meat + fish + sweet + gold)"
proof -
  from feature_engineering_nth(2)[OF assms(1,2)] obtain y m v1 v2 where
    r: "rows t' ! i = AList.update ''Campaign_Accepted_Count'' v2
              (AList.update ''Total_Spend'' v1
                (AList.update ''Join_Month'' m (AList.update ''Join_Year'' y (rows t ! i))))"
    and v1: "series_sum (map (cell_at (AList.update ''Join_Month'' m
               (AList.update ''Join_Year'' y (rows t ! i)))) product_cols) = Inr v1"
    by blast
  have cells: "map (cell_at (AList.update ''Join_Month'' m
               (AList.update ''Join_Year'' y (rows t ! i)))) product_cols
        = map I64 [wines, fruits, meat, fish, sweet, gold]"
    using assms(3-8) by (simp add: cell_at_update product_cols_def)
  have "wrap64 (sum_list [wines, fruits, meat, fish, sweet, gold])
        = wines + fruits + meat + fish + sweet + gold"
    using assms(9,10) by (simp add: wrap64_id)
  with v1 have "v1 = I64 (wines + fruits + meat + fish + sweet + gold)"
    unfolding cells series_sum_ints by simp
  then have "cell_at (rows t' ! i) ''Total_Spend'' = I64 (wines + fruits + meat + fish + sweet + gold)"
    unfolding r by (simp add: cell_at_update)
  moreover have "map (cell_at (rows t' ! i)) product_cols = map (cell_at (rows t ! i)) product_cols"
    unfolding r by (simp add: cell_at_update product_cols_def)
  ultimately show ?thesis using feature_engineering_nth(1)[OF assms(1)] by simp
qed

theorem total_spend_is_sum_within_int64_witness:
  "\<exists>t'. feature_engineering iso_to_datetime spend_example = Inr t'
     \<and> map (cell_at (rows spend_example ! 0)) product_cols
         = [I64 100, I64 10, I64 20, I64 5, I64 5, I64 10]
     \<and> length (rows t') = 1
     \<and> map (cell_at (rows t' ! 0)) product_cols = [I64 100, I64 10, I64 20, I64 5, I64 5, I64 10]
     \<and> cell_at (rows t' ! 0) ''Total_Spend'' = I64 150"
proof -
  let ?t' = "\<lparr>columns = columns spend_example @ [''Join_Year'', ''Join_Month'', ''Total_Spend'',
                                               ''Campaign_Accepted_Count''],
          rows = [spend_example_row]\<rparr>"
  have i: "0 < length (rows spend_example)" by (simp add: spend_example_def)
  have c: "cell_at (rows spend_example ! 0) ''MntWines'' = I64 100"
      "cell_at (rows spend_example ! 0) ''MntFruits'' = I64 10"
      "cell_at (rows spend_example ! 0) ''MntMeatProducts'' = I64 20"
      "cell_at (rows spend_example ! 0) ''MntFishProducts'' = I64 5"
      "cell_at (rows spend_example ! 0) ''MntSweetProducts'' = I64 5"
      "cell_at (rows spend_example ! 0) ''MntGoldProds'' = I64 10"
    by (simp_all add: cell_at_def spend_example_def)
  have cs: "map (cell_at (rows spend_example ! 0)) product_cols
         = [I64 100, I64 10, I64 20, I64 5, I64 5, I64 10]"
    by (simp add: cell_at_def spend_example_def product_cols_def)
  have lo: "- (2 ^ 63) \<le> (100 + 10 + 20 + 5 + 5 + 10 :: int)" by simp
  have hi: "(100 + 10 + 20 + 5 + 5 + 10 :: int) < 2 ^ 63" by simp
  note R = total_spend_is_sum_within_int64[OF feature_engineering_spend_example i c lo hi]
  from R have a: "length (rows ?t') = 1" by (simp add: spend_example_def)
  from R have "map (cell_at (rows ?t' ! 0)) product_cols
      = map (cell_at (rows spend_example ! 0)) product_cols" by blast
  then have b: "map (cell_at (rows ?t' ! 0)) product_cols
      = [I64 100, I64 10, I64 20, I64 5, I64 5, I64 10]" unfolding cs .
  from R have d: "cell_at (rows ?t' ! 0) ''Total_Spend'' = I64 150" by simp
  from feature_engineering_spend_example cs a b d show ?thesis by (intro exI conjI)
qed

lemma sum_list_of_int: "sum_list (map of_int ns) = (of_int (sum_list ns) :: rat)"
  by (induction ns) simp_all

lemma flags_numeric:
  "list_all (\<lambda>c. num_value (cell_at r c) = Some 0 \<or> num_value (cell_at r c) = Some 1) cs \<Longrightarrow>
   \<exists>qs. numeric (map (cell_at r) cs) = Inr qs
      \<and> sum_list qs = of_nat (length (filter (\<lambda>c. num_value (cell_at r c) = Some 1) cs))"
proof (induction cs)
  case Nil
  then show ?case by simp
next
  case (Cons c cs)
  then obtain qs where qs: "numeric (map (cell_at r) cs) = Inr qs"
      "sum_list qs = of_nat (length (filter (\<lambda>c. num_value (cell_at r c) = Some 1) cs))"
    by auto
  from Cons.prems have "num_value (cell_at r c) = Some 0 \<or> num_value (cell_at r c) = Some 1"
    by simp
  with qs show ?case by (cases "cell_at r c") auto
qed

lemma flags_sum:
  assumes "list_all (\<lambda>c. num_value (cell_at r c) = Some 0 \<or> num_value (cell_at r c) = Some 1) cs"
    and "length cs \<le> 5"
  shows "\<exists>v. series_sum (map (cell_at r) cs) = Inr v
      \<and> num_value v = Some (of_nat (length (filter (\<lambda>c. num_value (cell_at r c) = Some 1) cs)))"
proof -
  let ?k = "length (filter (\<lambda>c. num_value (cell_at r c) = Some 1) cs)"
  from flags_numeric[OF assms(1)] obtain qs where
    qs: "numeric (map (cell_at r) cs) = Inr qs" "sum_list qs = of_nat ?k" by blast
  from series_sum_value[OF qs(1)] obtain v where v: "series_sum (map (cell_at r) cs) = Inr v"
    and d: "num_value v = Some (sum_list qs)
            \<or> (\<exists>ns. map (cell_at r) cs = map I64 ns \<and> v = I64 (wrap64 (sum_list ns)))"
    by blast
  from d have "num_value v = Some (of_nat ?k)"
  proof
    assume "num_value v = Some (sum_list qs)"
    with qs(2) show ?thesis by simp
  next
    assume "\<exists>ns. map (cell_at r) cs = map I64 ns \<and> v = I64 (wrap64 (sum_list ns))"
    then obtain ns where ns: "map (cell_at r) cs = map I64 ns" "v = I64 (wrap64 (sum_list ns))"
      by blast
    have "numeric (map I64 ns) = Inr (map of_int ns)"
      by (rule ints_of_numeric) (rule ints_of_map)
    with qs(1) ns(1) have "qs = map of_int ns" by simp
    with qs(2) have "(of_int (sum_list ns) :: rat) = of_int (int ?k)"
      by (simp add: sum_list_of_int)
    then have eq: "sum_list ns = int ?k" by (simp only: of_int_eq_iff)
    have "?k \<le> length cs" by (rule length_filter_le)
    from this assms(2) have "?k \<le> 5" by (rule order_trans)
    with eq have "wrap64 (sum_list ns) = int ?k" by (simp add: wrap64_id)
    with ns(2) show ?thesis by simp
  qed
  with v show ?thesis by blast
qed

text \<open>
  C6. Line 62 sums the five campaign columns row by row. Feature engineering keeps the
  rows and their five flags, and on a row whose five flags are 0 or 1,
  Campaign_Accepted_Count is one of 0, 1, 2, 3, 4, 5 and is the number of flags equal
  to 1.
\<close>

theorem campaign_accepted_count_counts_flags:
  assumes "feature_engineering tdt t = Inr t'" and "i < length (rows t)"
    and "list_all (\<lambda>c. num_value (cell_at (rows t ! i) c) = Some 0
                      \<or> num_value (cell_at (rows t ! i) c) = Some 1) cmp_cols"
  shows "length (rows t') = length (rows t)
       \<and> map (cell_at (rows t' ! i)) cmp_cols = map (cell_at (rows t ! i)) cmp_cols
       \<and> (\<exists>n. num_value (cell_at (rows t' ! i) ''Campaign_Accepted_Count'') = Some (of_int n)
              \<and> n \<in> {0, 1, 2, 3, 4, 5}
              \<and> n = int (length (filter (\<lambda>c. num_value (cell_at (rows t ! i) c) = Some 1) cmp_cols)))"
proof -
  from feature_engineering_nth(2)[OF assms(1,2)] obtain y m v1 v2 where
    r: "rows t' ! i = AList.update ''Campaign_Accepted_Count'' v2
              (AList.update ''Total_Spend'' v1
                (AList.update ''Join_Month'' m (AList.update ''Join_Year'' y (rows t ! i))))"
    and v2: "series_sum (map (cell_at (AList.update ''Total_Spend'' v1
               (AList.update ''Join_Month'' m (AList.update ''Join_Year'' y (rows t ! i))))) cmp_cols)
             = Inr v2"
    by blast
  let ?k = "length (filter (\<lambda>c. num_value (cell_at (rows t ! i) c) = Some 1) cmp_cols)"
  have same: "map (cell_at (AList.update ''Total_Spend'' v1
               (AList.update ''Join_Month'' m (AList.update ''Join_Year'' y (rows t ! i))))) cmp_cols
        = map (cell_at (rows t ! i)) cmp_cols"
    by (simp add: cell_at_update cmp_cols_def)
  have kept: "map (cell_at (rows t' ! i)) cmp_cols = map (cell_at (rows t ! i)) cmp_cols"
    unfolding r by (simp add: cell_at_update cmp_cols_def)
  have "length cmp_cols \<le> 5" by (simp add: cmp_cols_def)
  from flags_sum[OF assms(3) this] obtain v where
    v: "series_sum (map (cell_at (rows t ! i)) cmp_cols) = Inr v" "num_value v = Some (of_nat ?k)"
    by blast
  from v2 have "series_sum (map (cell_at (rows t ! i)) cmp_cols) = Inr v2"
    unfolding same .
  with v have "num_value v2 = Some (of_int (int ?k))" by simp
  then have count: "num_value (cell_at (rows t' ! i) ''Campaign_Accepted_Count'') = Some (of_int (int ?k))"
    unfolding r by (simp add: cell_at_update)
  have "?k \<le> length cmp_cols" by (rule length_filter_le)
  then have "?k \<le> 5" by (simp add: cmp_cols_def)
  then have "int ?k \<in> {0, 1, 2, 3, 4, 5}"
    unfolding insert_iff empty_iff by presburger
  with count kept feature_engineering_nth(1)[OF assms(1)] show ?thesis by blast
qed

theorem campaign_accepted_count_counts_flags_witness:
  "\<exists>t'. feature_engineering iso_to_datetime spend_example = Inr t'
     \<and> map (cell_at (rows spend_example ! 0)) cmp_cols = [I64 1, I64 0, I64 1, I64 0, I64 0]
     \<and> length (rows t') = 1
     \<and> map (cell_at (rows t' ! 0)) cmp_cols = [I64 1, I64 0, I64 1, I64 0, I64 0]
     \<and> num_value (cell_at (rows t' ! 0) ''Campaign_Accepted_Count'') = Some 2"
proof -
  let ?t' = "\<lparr>columns = columns spend_example @ [''Join_Year'', ''Join_Month'', ''Total_Spend'',
                                               ''Campaign_Accepted_Count''],
          rows = [spend_example_row]\<rparr>"
  have i: "0 < length (rows spend_example)" by (simp add: spend_example_def)
  have flags: "map (cell_at (rows spend_example ! 0)) cmp_cols = [I64 1, I64 0, I64 1, I64 0, I64 0]"
    by (simp add: cell_at_def spend_example_def cmp_cols_def)
  have ok: "list_all (\<lambda>c. num_value (cell_at (rows spend_example ! 0) c) = Some 0
                      \<or> num_value (cell_at (rows spend_example ! 0) c) = Some 1) cmp_cols"
    by (simp add: cell_at_def spend_example_def cmp_cols_def)
  note R = campaign_accepted_count_counts_flags[OF feature_engineering_spend_example i ok]
  from R have a: "length (rows ?t') = 1" by (simp add: spend_example_def)
  from R have "map (cell_at (rows ?t' ! 0)) cmp_cols
      = map (cell_at (rows spend_example ! 0)) cmp_cols" by blast
  then have b: "map (cell_at (rows ?t' ! 0)) cmp_cols = [I64 1, I64 0, I64 1, I64 0, I64 0]"
    unfolding flags .
  from R obtain n where "num_value (cell_at (rows ?t' ! 0) ''Campaign_Accepted_Count'') = Some (of_int n)"
    "n = int (length (filter (\<lambda>c. num_value (cell_at (rows spend_example ! 0) c) = Some 1) cmp_cols))"
    by blast
  then have d: "num_value (cell_at (rows ?t' ! 0) ''Campaign_Accepted_Count'') = Some 2"
    by (simp add: cell_at_def spend_example_def cmp_cols_def)
  from feature_engineering_spend_example flags a b d show ?thesis by (intro exI conjI)
qed

subsection \<open>Range filters\<close>

lemmas example_defs = example_table_def example_columns_def example_row1_def example_row2_def
  example_row3_def example_row4_def

lemma traverse_cmp_numeric:
  "numeric cs = Inr qs \<Longrightarrow> NaN \<notin> set cs \<Longrightarrow> traverse (cmp_cell p) cs = Inr (map p qs)"
proof (induction cs arbitrary: qs)
  case Nil
  then show ?case by simp
next
  case (Cons c cs)
  then show ?case by (cases c) (auto split: sum.splits)
qed

lemma numeric_length: "numeric cs = Inr qs \<Longrightarrow> NaN \<notin> set cs \<Longrightarrow> length qs = length cs"
proof (induction cs arbitrary: qs)
  case Nil
  then show ?case by simp
next
  case (Cons c cs)
  then show ?case by (cases c) (auto split: sum.splits)
qed

lemma keep_all: "length xs = length m \<Longrightarrow> list_all id m \<Longrightarrow> map fst (filter snd (zip xs m)) = xs"
  by (induction xs m rule: list_induct2) simp_all

lemma all_True: "list_all id m \<Longrightarrow> m = replicate (length m) True"
  by (induction m) simp_all

lemma int_of_float_whole: "int_of_float (of_int n) = n"
  by (simp add: int_of_float_def)

lemma py_int_whole: "num_value c = Some (of_int n) \<Longrightarrow> py_int c = Inr n"
  by (cases c) (simp_all add: int_of_float_whole)

lemma Min_of_int: "ns \<noteq> [] \<Longrightarrow> Min (set (map of_int ns)) = (of_int (Min (set ns)) :: rat)"
  by (simp add: mono_Min_commute[symmetric] monoI)

lemma Max_of_int: "ns \<noteq> [] \<Longrightarrow> Max (set (map of_int ns)) = (of_int (Max (set ns)) :: rat)"
  by (simp add: mono_Max_commute[symmetric] monoI)

lemma series_min_numeric:
  assumes "series_min cs = Inr mn" and "mn \<noteq> NaN"
  shows "\<exists>qs. numeric cs = Inr qs \<and> qs \<noteq> [] \<and> num_value mn = Some (Min (set qs))"
proof (cases "ints_of cs")
  case None
  with assms show ?thesis
    by (auto simp: series_min_def split: sum.splits if_splits)
next
  case (Some ns)
  with assms have ns: "ns \<noteq> []" "mn = I64 (Min (set ns))"
    by (auto simp: series_min_def split: if_splits)
  from ints_of_numeric[OF Some] ns Min_of_int[OF ns(1)] show ?thesis by simp
qed

lemma series_max_numeric:
  assumes "series_max cs = Inr mx" and "mx \<noteq> NaN"
  shows "\<exists>qs. numeric cs = Inr qs \<and> qs \<noteq> [] \<and> num_value mx = Some (Max (set qs))"
proof (cases "ints_of cs")
  case None
  with assms show ?thesis
    by (auto simp: series_max_def split: sum.splits if_splits)
next
  case (Some ns)
  with assms have ns: "ns \<noteq> []" "mx = I64 (Max (set ns))"
    by (auto simp: series_max_def split: if_splits)
  from ints_of_numeric[OF Some] ns Max_of_int[OF ns(1)] show ?thesis by simp
qed

lemma whole_bounds:
  assumes "and_then (getitem f c) series_min = Inr mn" and "num_value mn = Some (of_int lo)"
    and "and_then (getitem f c) series_max = Inr mx" and "num_value mx = Some (of_int hi)"
  shows "\<exists>qs. numeric (map (\<lambda>r. cell_at r c) (rows f)) = Inr qs \<and> qs \<noteq> []
            \<and> of_int lo = Min (set qs) \<and> of_int hi = Max (set qs) \<and> c \<in> set (columns f)"
proof -
  let ?cs = "map (\<lambda>r. cell_at r c) (rows f)"
  from assms(1) have c: "c \<in> set (columns f)" and mn: "series_min ?cs = Inr mn"
    by (auto simp: and_then_Inr getitem_def split: if_splits)
  from assms(3) c have mx: "series_max ?cs = Inr mx"
    by (auto simp: and_then_Inr getitem_def split: if_splits)
  from assms(2) have "mn \<noteq> NaN" by auto
  from series_min_numeric[OF mn this] obtain qs where
    qs: "numeric ?cs = Inr qs" "qs \<noteq> []" "num_value mn = Some (Min (set qs))" by blast
  from assms(4) have "mx \<noteq> NaN" by auto
  from series_max_numeric[OF mx this] qs(1) have "num_value mx = Some (Max (set qs))" by auto
  with qs assms(2,4) c show ?thesis by auto
qed

lemma whole_slider_bounds:
  assumes "and_then (getitem f c) series_min = Inr mn" and "num_value mn = Some (of_int lo)"
    and "and_then (getitem f c) series_max = Inr mx" and "num_value mx = Some (of_int hi)"
  shows "slider_bounds f c = Inr (lo, hi)"
proof -
  from assms(1,3) obtain cs where cs: "getitem f c = Inr cs" "series_min cs = Inr mn"
    "series_max cs = Inr mx"
    by (auto simp: and_then_Inr)
  with py_int_whole[OF assms(2)] py_int_whole[OF assms(4)] show ?thesis
    by (simp add: slider_bounds_def and_then_def)
qed

lemma full_range_mask:
  assumes "and_then (getitem f c) series_min = Inr mn" and "num_value mn = Some (of_int lo)"
    and "and_then (getitem f c) series_max = Inr mx" and "num_value mx = Some (of_int hi)"
    and "list_all (\<lambda>r. cell_at r c \<noteq> NaN) (rows f)"
  shows "range_mask f c lo hi = Inr (replicate (length (rows f)) True)"
proof -
  let ?cs = "map (\<lambda>r. cell_at r c) (rows f)"
  from whole_bounds[OF assms(1-4)] obtain qs where
    qs: "numeric ?cs = Inr qs" "qs \<noteq> []" "of_int lo = Min (set qs)" "of_int hi = Max (set qs)"
    and c: "c \<in> set (columns f)" by blast
  from assms(5) have nn: "NaN \<notin> set ?cs" by (auto simp: list_all_iff)
  let ?m = "map (\<lambda>(a, b). a \<and> b) (zip (map (\<lambda>q. of_int lo \<le> q) qs) (map (\<lambda>q. q \<le> of_int hi) qs))"
  have mask: "range_mask f c lo hi = Inr ?m"
    using c by (simp add: range_mask_def and_then_def getitem_def
        traverse_cmp_numeric[OF qs(1) nn])
  have "length qs = length (rows f)"
    using numeric_length[OF qs(1) nn] by simp
  then have len: "length ?m = length (rows f)" by simp
  have "of_int lo \<le> q \<and> q \<le> of_int hi" if "q \<in> set qs" for q
    using that qs(3,4) by simp
  then have "list_all id ?m"
    by (auto simp: list_all_iff set_zip)
  then have "?m = replicate (length ?m) True" by (rule all_True)
  with len have "?m = replicate (length (rows f)) True" by simp
  with mask show ?thesis by simp
qed

lemma boolean_index_all: "boolean_index f (replicate (length (rows f)) True) = f"
  by (simp add: boolean_index_def keep_all list_all_iff)







lemma customer_tab_untouched_slider:
  assumes "customer_tab s None = Inr (s', k)"
    and "and_then (getitem (df s) ''age'') series_min = Inr mn"
    and "num_value mn = Some (of_int lo)"
    and "and_then (getitem (df s) ''age'') series_max = Inr mx"
    and "num_value mx = Some (of_int hi)"
    and "list_all (\<lambda>r. cell_at r ''age'' \<noteq> NaN) (rows (df s))"
  shows "filtered_df s' = Some (df s)"
proof -
  from assms(1) obtain b m where
    b: "slider_bounds (df s) ''age'' = Inr b"
    and m: "range_mask (df s) ''age'' (fst b) (snd b) = Inr m"
    and s': "filtered_df s' = Some (boolean_index (df s) m)"
    by (auto simp: customer_tab_def and_then_Inr slider_value_def)
  from whole_slider_bounds[OF assms(2-5)] b have "b = (lo, hi)" by simp
  with full_range_mask[OF assms(2-6)] m
  have "m = replicate (length (rows (df s))) True" by simp
  then show ?thesis using s' by (simp add: boolean_index_all)
qed

text \<open>
  C1, as stated, fails. The ages of the example are 25, 30, 35 and 40; the age range 26 to
  29 is inside the slider and selects no customer, and the Customer tab then raises
  ValueError at line 87, where \<^verbatim>\<open>int\<close> is applied to the NaN mean of no incomes.
\<close>

theorem empty_subset_counterexample:
  "range_mask example_table ''age'' 26 29 = Inr [False, False, False, False]
   \<and> rows (boolean_index example_table [False, False, False, False]) = []
   \<and> customer_tab example_state (Some (26, 29)) = Inl ValueError"
  by (simp add: customer_tab_def example_state_def slider_bounds_def range_mask_def
      slider_value_def boolean_index_def and_then_def getitem_def series_min_def series_max_def
      int_of_float_def series_mean_def cell_at_def example_defs)

text \<open>
  C1, amended. The code has no handling of an empty subset, and the tabs raise on it.
  Whenever the age range of the Customer tab selects no row of a table that has an Income
  column, the tab raises ValueError (line 87, \<^verbatim>\<open>int\<close> of the NaN mean) and shows no KPI; and
  whenever the income range of the Spending tab selects no row of a table that has the
  selected product column and Total_Spend, that tab raises ValueError (line 122).
\<close>

theorem empty_subset_raises:
  "(slider_bounds (df s) ''age'' = Inr b
      \<and> range_mask (df s) ''age'' (fst (slider_value sl b)) (snd (slider_value sl b)) = Inr m
      \<and> rows (boolean_index (df s) m) = []
      \<and> ''Income'' \<in> set (columns (df s))
    \<longrightarrow> customer_tab s sl = Inl ValueError)
   \<and> (slider_bounds (df s) ''Income'' = Inr b'
      \<and> range_mask (df s) ''Income'' (fst (slider_value sl' (20000, 60000)))
           (snd (slider_value sl' (20000, 60000))) = Inr m'
      \<and> rows (boolean_index (df s) m') = []
      \<and> p \<in> set (columns (df s)) \<and> ''Total_Spend'' \<in> set (columns (df s))
    \<longrightarrow> spending_tab s sl' p = Inl ValueError)"
proof (intro conjI impI)
  assume "slider_bounds (df s) ''age'' = Inr b
      \<and> range_mask (df s) ''age'' (fst (slider_value sl b)) (snd (slider_value sl b)) = Inr m
      \<and> rows (boolean_index (df s) m) = []
      \<and> ''Income'' \<in> set (columns (df s))"
  then show "customer_tab s sl = Inl ValueError"
    by (simp add: customer_tab_def and_then_def getitem_def boolean_index_def series_mean_def)
next
  assume a: "slider_bounds (df s) ''Income'' = Inr b'
      \<and> range_mask (df s) ''Income'' (fst (slider_value sl' (20000, 60000)))
           (snd (slider_value sl' (20000, 60000))) = Inr m'
      \<and> rows (boolean_index (df s) m') = []
      \<and> p \<in> set (columns (df s)) \<and> ''Total_Spend'' \<in> set (columns (df s))"
  let ?f = "boolean_index (df s) m'"
  from a have e: "rows ?f = []" and cols: "columns ?f = columns (df s)"
    by (simp_all add: boolean_index_def)
  from a e cols have sel: "getitem ?f p = Inr []" by (simp add: getitem_def)
  let ?sdf = "\<lparr>columns = (if ''Selected_Product_Spend'' \<in> set (columns (df s)) then columns (df s)
                            else columns (df s) @ [''Selected_Product_Spend'']), rows = []\<rparr>"
  from e cols have set: "setitem ?f ''Selected_Product_Spend'' [] = Inr ?sdf"
    by (simp add: setitem_def)
  from a have ts: "getitem ?sdf ''Total_Spend'' = Inr []" by (simp add: getitem_def)
  from a show "spending_tab s sl' p = Inl ValueError"
    by (simp add: spending_tab_def and_then_def sel set ts series_sum_def series_mean_def)
qed

lemma example_income_bounds: "slider_bounds example_table ''Income'' = Inr (20000, 80000)"
  by (simp add: slider_bounds_def and_then_def getitem_def series_min_def series_max_def
      int_of_float_def cell_at_def example_defs)

lemma example_age_bounds: "slider_bounds example_table ''age'' = Inr (25, 40)"
  by (simp add: slider_bounds_def and_then_def getitem_def series_min_def series_max_def
      int_of_float_def cell_at_def example_defs)

theorem empty_subset_raises_witness:
  "slider_bounds (df example_state) ''age'' = Inr (25, 40)
   \<and> range_mask (df example_state) ''age'' 26 29 = Inr [False, False, False, False]
   \<and> rows (boolean_index (df example_state) [False, False, False, False]) = []
   \<and> ''Income'' \<in> set (columns (df example_state))
   \<and> customer_tab example_state (Some (26, 29)) = Inl ValueError
   \<and> slider_bounds (df example_state) ''Income'' = Inr (20000, 80000)
   \<and> range_mask (df example_state) ''Income'' 45000 55000 = Inr [False, False, False, False]
   \<and> ''MntWines'' \<in> set (columns (df example_state))
   \<and> ''Total_Spend'' \<in> set (columns (df example_state))
   \<and> spending_tab example_state (Some (45000, 55000)) ''MntWines'' = Inl ValueError"
proof -
  have d: "df example_state = example_table" by (simp add: example_state_def)
  have b1: "slider_bounds (df example_state) ''age'' = Inr (25, 40)"
    unfolding d by (rule example_age_bounds)
  have m1: "range_mask (df example_state) ''age'' 26 29 = Inr [False, False, False, False]"
    unfolding d by (simp add: range_mask_def and_then_def getitem_def cell_at_def example_defs)
  have e: "rows (boolean_index (df example_state) [False, False, False, False]) = []"
    unfolding d by (simp add: boolean_index_def example_table_def)
  have c1: "''Income'' \<in> set (columns (df example_state))"
    unfolding d by (simp add: example_defs)
  have b2: "slider_bounds (df example_state) ''Income'' = Inr (20000, 80000)"
    unfolding d by (rule example_income_bounds)
  have m2: "range_mask (df example_state) ''Income'' 45000 55000 = Inr [False, False, False, False]"
    unfolding d by (simp add: range_mask_def and_then_def getitem_def cell_at_def example_defs)
  have c2: "''MntWines'' \<in> set (columns (df example_state))"
    unfolding d by (simp add: example_defs)
  have c3: "''Total_Spend'' \<in> set (columns (df example_state))"
    unfolding d by (simp add: example_defs)
  note R = empty_subset_raises[of example_state "(25, 40)" "Some (26, 29)"
      "[False, False, False, False]" "(20000, 80000)" "Some (45000, 55000)"
      "[False, False, False, False]" "''MntWines''"]
  from R b1 m1 e c1 have r1: "customer_tab example_state (Some (26, 29)) = Inl ValueError"
    by (simp add: slider_value_def)
  from R b2 m2 e c2 c3 have r2: "spending_tab example_state (Some (45000, 55000)) ''MntWines'' = Inl ValueError"
    by (simp add: slider_value_def)
  from b1 m1 e c1 r1 b2 m2 c2 c3 r2 show ?thesis by (intro conjI)
qed

lemma customer_tab_df: "customer_tab s sl = Inr (s', k) \<Longrightarrow> df s' = df s"
  by (auto simp: customer_tab_def and_then_Inr)


lemmas tab_defs = customer_tab_def campaigns_tab_def slider_bounds_def range_mask_def
  slider_value_def boolean_index_def and_then_def getitem_def getitems_def setitem_def
  series_min_def series_max_def int_of_float_def series_mean_def series_sum_def wrap64_def
  sum_axis0_def sum_axis1_def cell_at_def mask_mean_def round_half_even_def
  sort_values_desc_def cmp_cols_def purchase_channels_def Let_def

lemma customer_example_full:
  "customer_tab example_state None =
     Inr (example_state\<lparr>filtered_df := Some example_table\<rparr>,
          \<lparr>total_customers = 4, average_income = 50000, campaign_response_rate = F64 50\<rparr>)"
  by (simp add: tab_defs example_state_def example_defs)


lemma campaigns_example_full:
  "\<exists>s' out. campaigns_tab (example_state\<lparr>filtered_df := Some example_table\<rparr>) = Inr (s', out)
     \<and> accepted_campaigns out = 5 \<and> responded_customers out = 2
     \<and> campaign_totals out = [(''AcceptedCmp1'', I64 2), (''AcceptedCmp2'', I64 1),
          (''AcceptedCmp3'', I64 2), (''AcceptedCmp4'', I64 0), (''AcceptedCmp5'', I64 0)]"
  by (simp add: tab_defs example_state_def example_defs)



subsection \<open>Mode\<close>

lemma series_mode_lowest:
  assumes "numeric cs = Inr ns" and "ns \<noteq> []"
  shows "\<exists>m. and_then (series_mode cs) item0 = Inr m \<and> m \<in> set ns
           \<and> (\<forall>v \<in> set ns. count_list ns v \<le> count_list ns m)
           \<and> (\<forall>v \<in> set ns. count_list ns v = count_list ns m \<longrightarrow> m \<le> v)"
proof -
  let ?M = "Max (set (map (count_list ns) ns))"
  let ?L = "sort (remdups (filter (\<lambda>v. count_list ns v = ?M) ns))"
  have fin: "finite (set (map (count_list ns) ns))" by simp
  have ne: "set (map (count_list ns) ns) \<noteq> {}" using assms(2) by simp
  from Max_in[OF fin ne] obtain w where w: "w \<in> set ns" "count_list ns w = ?M" by auto
  have setL: "set ?L = {v \<in> set ns. count_list ns v = ?M}" by auto
  with w have "?L \<noteq> []" by (metis (mono_tags, lifting) empty_iff empty_set mem_Collect_eq)
  then obtain m rest where L: "?L = m # rest" by (cases ?L) auto
  have "sorted ?L" by simp
  with L have least: "\<forall>y \<in> set ?L. m \<le> y" by auto
  from L have "m \<in> set ?L" by simp
  with setL have m: "m \<in> set ns" "count_list ns m = ?M" by auto
  have le: "count_list ns v \<le> ?M" if "v \<in> set ns" for v
    using that by (intro Max_ge) auto
  have mode: "series_mode cs = Inr ?L"
    using assms by (simp add: series_mode_def)
  have "item0 ?L = Inr m"
    unfolding L by (simp add: item0_def)
  then have "and_then (series_mode cs) item0 = Inr m"
    unfolding mode and_then_def by (simp only: sum.case)
  moreover have "\<forall>v \<in> set ns. count_list ns v = count_list ns m \<longrightarrow> m \<le> v"
    using least setL m(2) by auto
  ultimately show ?thesis using m le by auto
qed

text \<open>
  C8. When the age column holds at least one number, the answer to the first question
  (line 193) is a value of highest frequency among the ages, and the lowest of the values
  that share this frequency. In the witness 30 and 40 both occur twice and 40 comes first
  in the table; the answer is 30.
\<close>

theorem most_common_age_is_lowest_mode:
  assumes "getitem (df s) ''age'' = Inr cs" and "numeric cs = Inr ns" and "ns \<noteq> []"
  shows "\<exists>m. chatbot_tab tdt today s MostCommonAge = Inr (s, Counts [m]) \<and> m \<in> set ns
           \<and> (\<forall>v \<in> set ns. count_list ns v \<le> count_list ns m)
           \<and> (\<forall>v \<in> set ns. count_list ns v = count_list ns m \<longrightarrow> m \<le> v)"
proof -
  from series_mode_lowest[OF assms(2,3)] obtain m where
    m: "and_then (series_mode cs) item0 = Inr m" "m \<in> set ns"
       "\<forall>v \<in> set ns. count_list ns v \<le> count_list ns m"
       "\<forall>v \<in> set ns. count_list ns v = count_list ns m \<longrightarrow> m \<le> v"
    by blast
  from m(1) obtain ms where "series_mode cs = Inr ms" "item0 ms = Inr m"
    by (auto simp: and_then_Inr)
  then have "chatbot_tab tdt today s MostCommonAge = Inr (s, Counts [m])"
    using assms(1) by (simp add: chatbot_tab_def and_then_def)
  with m(2-4) show ?thesis by blast
qed

theorem most_common_age_is_lowest_mode_witness:
  "getitem tied_ages ''age'' = Inr [I64 40, I64 30, I64 40, I64 30, I64 25]
   \<and> numeric [I64 40, I64 30, I64 40, I64 30, I64 25] = Inr [40, 30, 40, 30, 25]
   \<and> chatbot_tab iso_to_datetime 0 \<lparr>df = tied_ages, filtered_df = None, spend_df = None\<rparr>
        MostCommonAge
      = Inr (\<lparr>df = tied_ages, filtered_df = None, spend_df = None\<rparr>, Counts [30])"
proof -
  let ?s = "\<lparr>df = tied_ages, filtered_df = None, spend_df = None\<rparr>"
  have g: "getitem (df ?s) ''age'' = Inr [I64 40, I64 30, I64 40, I64 30, I64 25]"
    by (simp add: getitem_def cell_at_def tied_ages_def)
  have n: "numeric [I64 40, I64 30, I64 40, I64 30, I64 25] = Inr [40, 30, 40, 30, 25]"
    by simp
  have ne: "[40, 30, 40, 30, 25] \<noteq> ([] :: rat list)" by simp
  from most_common_age_is_lowest_mode[OF g n ne, of iso_to_datetime 0] obtain m where
    m: "chatbot_tab iso_to_datetime 0 ?s MostCommonAge = Inr (?s, Counts [m])"
       "m \<in> set [40, 30, 40, 30, 25 :: rat]"
       "\<forall>v \<in> set [40, 30, 40, 30, 25 :: rat].
          count_list [40, 30, 40, 30, 25] v \<le> count_list [40, 30, 40, 30, 25] m"
       "\<forall>v \<in> set [40, 30, 40, 30, 25 :: rat].
          count_list [40, 30, 40, 30, 25] v = count_list [40, 30, 40, 30, 25] m \<longrightarrow> m \<le> v"
    by blast
  from m(2) m(3) m(4) have "m = 30" by auto
  with m(1) g n show ?thesis by simp
qed

subsection \<open>Grouping by year and month\<close>















lemmas spending_defs = spending_tab_def slider_bounds_def range_mask_def
  slider_value_def boolean_index_def and_then_def getitem_def getitems_def setitem_def
  series_min_def series_max_def int_of_float_def series_mean_def series_sum_def wrap64_def
  sum_axis0_def cell_at_def sort_values_desc_def product_cols_def groupby_sum_def
  observed_keys_def

lemma floor_average_spend: "\<lfloor>350 / 3 :: rat\<rfloor> = 116"
  by (rule floor_unique) simp_all

lemma spending_example:
  "\<exists>s' out. spending_tab example_state None ''MntWines'' = Inr (s', out)
      \<and> time_df out = [([2021, 1], I64 300), ([2021, 3], I64 50)]"
  by (simp add: spending_defs example_state_def example_defs floor_average_spend)



subsection \<open>The table under the tabs and the chatbot\<close>

lemma setitem_other_column:
  assumes "setitem f c vs = Inr f'" and "c' \<noteq> c"
  shows "getitem f' c' = getitem f c'"
proof -
  from assms(1) have len: "length (rows f) = length vs"
    and f': "f' = \<lparr>columns = (if c \<in> set (columns f) then columns f else columns f @ [c]),
                   rows = map (\<lambda>(r, v). AList.update c v r) (zip (rows f) vs)\<rparr>"
    by (auto simp: setitem_def split: if_splits)
  have "map (\<lambda>r. cell_at r c') (map (\<lambda>(r, v). AList.update c v r) (zip rs vs))
      = map (\<lambda>r. cell_at r c') rs" if "length rs = length vs" for rs
    using that assms(2) by (induction rs vs rule: list_induct2) (simp_all add: cell_at_update)
  with len assms(2) show ?thesis
    unfolding f' by (simp add: getitem_def)
qed

lemma setitem_shape:
  assumes "setitem f c vs = Inr f'"
  shows "length (rows f') = length (rows f)" and "set (columns f') = insert c (set (columns f))"
  using assms by (auto simp: setitem_def split: if_splits)

lemma setitem_again:
  assumes "setitem f c vs = Inr f'"
  shows "setitem f' c vs = Inr f'"
proof -
  from assms have len: "length (rows f) = length vs"
    and f': "f' = \<lparr>columns = (if c \<in> set (columns f) then columns f else columns f @ [c]),
                   rows = map (\<lambda>(r, v). AList.update c v r) (zip (rows f) vs)\<rparr>"
    by (auto simp: setitem_def split: if_splits)
  have "map (\<lambda>(r, v). AList.update c v r) (zip (map (\<lambda>(r, v). AList.update c v r) (zip rs vs)) vs)
      = map (\<lambda>(r, v). AList.update c v r) (zip rs vs)" if "length rs = length vs" for rs
    using that by (induction rs vs rule: list_induct2) simp_all
  with len show ?thesis
    unfolding f' by (simp add: setitem_def)
qed

lemma chatbot_other_questions:
  assumes "q \<noteq> OldVsNew" and "chatbot_tab tdt today s q = Inr (s', a)"
  shows "s' = s"
  using assms by (cases q) (auto simp: chatbot_tab_def and_then_Inr)

lemma chatbot_old_vs_new:
  assumes "chatbot_tab tdt today s OldVsNew = Inr (s', a)"
  shows "\<exists>d ts. getitem (df s) ''Dt_Customer'' = Inr d \<and> tdt d = Inr ts
           \<and> setitem (df s) ''Customer_Since_Days'' (since_days today ts) = Inr (df s')
           \<and> s' = s\<lparr>df := df s'\<rparr>"
  using assms by (auto simp: chatbot_tab_def and_then_Inr)

lemma spending_tab_df: "spending_tab s sl p = Inr (s', out) \<Longrightarrow> df s' = df s"
  by (auto simp: spending_tab_def and_then_Inr)

lemma campaigns_tab_df: "campaigns_tab s = Inr (s', out) \<Longrightarrow> df s' = df s"
  by (auto simp: campaigns_tab_def and_then_Inr split: option.splits)

text \<open>
  C3, amended. The three tabs and twelve of the thirteen answers leave the table as it
  is: the tabs write only to \<^verbatim>\<open>filtered_df\<close> and \<^verbatim>\<open>spend_df\<close>, and the answers only read. The
  answer to the last question (line 219) assigns the column Customer_Since_Days to the
  table; it keeps the rows and every other column.
\<close>

theorem table_changed_only_by_old_vs_new:
  "(customer_tab s sl = Inr (s1, k) \<longrightarrow> df s1 = df s)
   \<and> (spending_tab s sl p = Inr (s2, sp) \<longrightarrow> df s2 = df s)
   \<and> (campaigns_tab s = Inr (s3, ca) \<longrightarrow> df s3 = df s)
   \<and> (q \<noteq> OldVsNew \<longrightarrow> chatbot_tab tdt today s q = Inr (s4, a) \<longrightarrow> s4 = s)
   \<and> (chatbot_tab tdt today s OldVsNew = Inr (s5, a') \<longrightarrow>
        length (rows (df s5)) = length (rows (df s))
        \<and> set (columns (df s5)) = insert ''Customer_Since_Days'' (set (columns (df s)))
        \<and> (\<forall>c. c \<noteq> ''Customer_Since_Days'' \<longrightarrow> getitem (df s5) c = getitem (df s) c))"
proof (intro conjI impI)
  show "df s1 = df s" if "customer_tab s sl = Inr (s1, k)"
    using that by (rule customer_tab_df)
  show "df s2 = df s" if "spending_tab s sl p = Inr (s2, sp)"
    using that by (rule spending_tab_df)
  show "df s3 = df s" if "campaigns_tab s = Inr (s3, ca)"
    using that by (rule campaigns_tab_df)
  show "s4 = s" if "q \<noteq> OldVsNew" "chatbot_tab tdt today s q = Inr (s4, a)"
    using that by (rule chatbot_other_questions)
next
  assume "chatbot_tab tdt today s OldVsNew = Inr (s5, a')"
  from chatbot_old_vs_new[OF this] obtain ts where
    set: "setitem (df s) ''Customer_Since_Days'' (since_days today ts) = Inr (df s5)" by blast
  from setitem_shape[OF set] show "length (rows (df s5)) = length (rows (df s))"
    and "set (columns (df s5)) = insert ''Customer_Since_Days'' (set (columns (df s)))" .
  from setitem_other_column[OF set]
  show "\<forall>c. c \<noteq> ''Customer_Since_Days'' \<longrightarrow> getitem (df s5) c = getitem (df s) c" by blast
qed

text \<open>
  C4, amended. Every answer but the last is the same at any two days. Any answer, the
  last included, is the same when the question is asked again on the same day in the
  state the first answer left.
\<close>

theorem answers_repeat_under_the_same_clock:
  "(q \<noteq> OldVsNew \<longrightarrow> chatbot_tab tdt t1 s q = chatbot_tab tdt t2 s q)
   \<and> (chatbot_tab tdt t s q = Inr (s', a) \<longrightarrow> chatbot_tab tdt t s' q = Inr (s', a))"
proof (intro conjI impI)
  show "chatbot_tab tdt t1 s q = chatbot_tab tdt t2 s q" if "q \<noteq> OldVsNew"
    using that by (cases q) (simp_all add: chatbot_tab_def)
next
  assume run: "chatbot_tab tdt t s q = Inr (s', a)"
  show "chatbot_tab tdt t s' q = Inr (s', a)"
  proof (cases "q = OldVsNew")
    case False
    from False run have "s' = s" by (rule chatbot_other_questions)
    with run show ?thesis by simp
  next
    case True
    from chatbot_old_vs_new[OF run[unfolded True]] obtain d ts where
      d: "getitem (df s) ''Dt_Customer'' = Inr d" and ts: "tdt d = Inr ts"
      and set: "setitem (df s) ''Customer_Since_Days'' (since_days t ts) = Inr (df s')"
      and s': "s' = s\<lparr>df := df s'\<rparr>" by blast
    from setitem_other_column[OF set, of "''Dt_Customer''"] d
    have d': "getitem (df s') ''Dt_Customer'' = Inr d" by simp
    from setitem_again[OF set]
    have set': "setitem (df s') ''Customer_Since_Days'' (since_days t ts) = Inr (df s')" .
    have same: "s'\<lparr>df := df s'\<rparr> = s'" by simp
    from run have a: "chatbot_tab tdt t s OldVsNew = Inr (s', a)" by (simp add: True)
    have fold: "s\<lparr>df := df s'\<rparr> = s'" using s' by simp
    show ?thesis
      using a unfolding True
      by (auto simp: chatbot_tab_def and_then_def d ts set d' set' same fold split: sum.splits)
  qed
qed

lemmas chatbot_defs = chatbot_tab_def and_then_def getitem_def setitem_def cell_at_def
  since_days_def int_series_def mask_sum_def iso_to_datetime_def iso_date_def digit_of_def days_in_month_def
  days_from_civil_def leap_year_def series_mode_def item0_def

lemma chatbot_example_mode:
  "chatbot_tab iso_to_datetime 19723 example_state MostCommonAge
     = Inr (example_state, Counts [25])"
  by (simp add: chatbot_defs example_state_def example_defs)

lemma chatbot_example_2024:
  "\<exists>s'. chatbot_tab iso_to_datetime 19723 example_state OldVsNew = Inr (s', Counts [4, 0])
      \<and> columns (df s') = example_columns @ [''Customer_Since_Days'']"
  by (simp add: chatbot_defs example_state_def example_defs)

lemma chatbot_example_2022:
  "\<exists>s'. chatbot_tab iso_to_datetime 19000 example_state OldVsNew = Inr (s', Counts [0, 4])"
  by (simp add: chatbot_defs example_state_def example_defs)

text \<open>
  C3, as stated, fails: after the answer to the last question the table of the example
  has one column more than before.
\<close>

theorem table_changed_by_old_vs_new_counterexample:
  "map_sum id (columns \<circ> df \<circ> fst) (chatbot_tab iso_to_datetime 19723 example_state OldVsNew)
     = Inr (example_columns @ [''Customer_Since_Days''])
   \<and> columns (df example_state) = example_columns"
proof -
  from chatbot_example_2024 obtain s' where
    "chatbot_tab iso_to_datetime 19723 example_state OldVsNew = Inr (s', Counts [4, 0])"
    "columns (df s') = example_columns @ [''Customer_Since_Days'']" by blast
  then show ?thesis by (simp add: example_state_def example_table_def)
qed

text \<open>
  C4, as stated, fails: on the same table the last question counts four old and no new
  customers on 2024-01-01 (day 19723) and no old and four new ones on 2022-01-08 (day
  19000).
\<close>

theorem old_vs_new_depends_on_clock_counterexample:
  "map_sum id snd (chatbot_tab iso_to_datetime 19723 example_state OldVsNew) = Inr (Counts [4, 0])
   \<and> map_sum id snd (chatbot_tab iso_to_datetime 19000 example_state OldVsNew) = Inr (Counts [0, 4])"
proof -
  from chatbot_example_2024 obtain s1 where
    "chatbot_tab iso_to_datetime 19723 example_state OldVsNew = Inr (s1, Counts [4, 0])" by blast
  moreover from chatbot_example_2022 obtain s2 where
    "chatbot_tab iso_to_datetime 19000 example_state OldVsNew = Inr (s2, Counts [0, 4])" by blast
  ultimately show ?thesis by simp
qed

theorem table_changed_only_by_old_vs_new_witness:
  "\<exists>s1 k s2 sp s3 ca s5.
     customer_tab example_state None = Inr (s1, k) \<and> df s1 = example_table
     \<and> spending_tab example_state None ''MntWines'' = Inr (s2, sp) \<and> df s2 = example_table
     \<and> campaigns_tab (example_state\<lparr>filtered_df := Some example_table\<rparr>) = Inr (s3, ca)
     \<and> df s3 = example_table
     \<and> MostCommonAge \<noteq> OldVsNew
     \<and> chatbot_tab iso_to_datetime 19723 example_state MostCommonAge
         = Inr (example_state, Counts [25])
     \<and> chatbot_tab iso_to_datetime 19723 example_state OldVsNew = Inr (s5, Counts [4, 0])
     \<and> length (rows (df s5)) = 4
     \<and> getitem (df s5) ''age'' = Inr [I64 25, I64 30, I64 35, I64 40]"
proof -
  let ?s = "example_state\<lparr>filtered_df := Some example_table\<rparr>"
  have dfs: "df example_state = example_table" "df ?s = example_table"
    by (simp_all add: example_state_def)
  from spending_example obtain s2 sp where
    sp: "spending_tab example_state None ''MntWines'' = Inr (s2, sp)" by blast
  from campaigns_example_full obtain s3 ca where
    ca: "campaigns_tab ?s = Inr (s3, ca)" by blast
  from chatbot_example_2024 obtain s5 where
    old: "chatbot_tab iso_to_datetime 19723 example_state OldVsNew = Inr (s5, Counts [4, 0])"
    by blast
  have age: "getitem example_table ''age'' = Inr [I64 25, I64 30, I64 35, I64 40]"
    by (simp add: getitem_def cell_at_def example_defs)
  have len: "length (rows example_table) = 4" by (simp add: example_table_def)
  note t = table_changed_only_by_old_vs_new
    [of example_state None _ _ "''MntWines''" s2 sp _ _ MostCommonAge iso_to_datetime 19723
        example_state "Counts [25]" s5 "Counts [4, 0]"]
  note t' = table_changed_only_by_old_vs_new
    [of ?s _ _ _ _ _ _ s3 ca]
  from t customer_example_full have 1: "df (example_state\<lparr>filtered_df := Some example_table\<rparr>) = df example_state"
    by blast
  from t sp have 2: "df s2 = example_table" by (simp add: dfs)
  from t' ca have 3: "df s3 = example_table" by (simp add: dfs)
  from t old have 5: "length (rows (df s5)) = 4"
    "getitem (df s5) ''age'' = Inr [I64 25, I64 30, I64 35, I64 40]"
    by (simp_all add: dfs age len)
  have ne: "MostCommonAge \<noteq> OldVsNew" by simp
  from customer_example_full dfs(2) sp 2 ca 3 ne chatbot_example_mode old 5
  show ?thesis by (intro exI conjI)
qed

theorem answers_repeat_under_the_same_clock_witness:
  "MostCommonAge \<noteq> OldVsNew
   \<and> chatbot_tab iso_to_datetime 19723 example_state MostCommonAge
       = chatbot_tab iso_to_datetime 19000 example_state MostCommonAge
   \<and> (\<exists>s'. chatbot_tab iso_to_datetime 19723 example_state OldVsNew = Inr (s', Counts [4, 0])
         \<and> chatbot_tab iso_to_datetime 19723 s' OldVsNew = Inr (s', Counts [4, 0]))"
proof -
  have ne: "MostCommonAge \<noteq> OldVsNew" by simp
  from chatbot_example_2024 obtain s' where
    old: "chatbot_tab iso_to_datetime 19723 example_state OldVsNew = Inr (s', Counts [4, 0])"
    by blast
  from answers_repeat_under_the_same_clock
    [of MostCommonAge iso_to_datetime 19723 example_state 19000] ne
  have 1: "chatbot_tab iso_to_datetime 19723 example_state MostCommonAge
       = chatbot_tab iso_to_datetime 19000 example_state MostCommonAge" by blast
  from answers_repeat_under_the_same_clock
    [of OldVsNew iso_to_datetime _ example_state _ 19723 s' "Counts [4, 0]"] old
  have 2: "chatbot_tab iso_to_datetime 19723 s' OldVsNew = Inr (s', Counts [4, 0])" by blast
  from ne 1 old 2 show ?thesis by blast
qed

subsection \<open>Loading\<close>

lemma feature_engineering_without_dates:
  "''Dt_Customer'' \<notin> set (columns t) \<Longrightarrow>
   feature_engineering tdt t = Inl (KeyError [''Dt_Customer''])"
  by (simp add: feature_engineering_def and_then_def getitem_def)

lemma feature_engineering_bad_date:
  "getitem t ''Dt_Customer'' = Inr d \<Longrightarrow> tdt d = Inl e \<Longrightarrow> feature_engineering tdt t = Inl e"
  by (simp add: feature_engineering_def and_then_def)

lemma script_stops:
  shows "load_data rd (chosen_file i) = Inl e \<Longrightarrow> script rd tdt i = Inl e"
    and "load_data rd (chosen_file i) = Inr t \<Longrightarrow> feature_engineering tdt t = Inl e
          \<Longrightarrow> script rd tdt i = Inl e"
  by (simp_all add: script_def and_then_def)

text \<open>
  C2, as stated, fails: the upload without age, spends or flags, whose join date is no
  date and whose income is no number, is loaded as the table of two text columns that the
  parser reads from it. Loading raises nothing here; the run fails only later, in feature
  engineering, with the ValueError of the date parser.
\<close>

theorem load_accepts_text_cells_counterexample:
  "load_data example_read_csv (Uploaded TextCellsFile) =
     Inr \<lparr>columns = [''Dt_Customer'', ''Income''],
          rows = [[(''Dt_Customer'', Str ''yesterday''), (''Income'', Str ''plenty'')]]\<rparr>"
  by (simp add: load_data_def text_cells_table_def)

text \<open>
  C2, amended. Loading is the call of the CSV parser and nothing else: it returns what
  the parser returns, table or exception, and checks neither the columns nor the cells.
  A table without Dt_Customer makes feature engineering fail with KeyError, a join date
  the date parser rejects makes it fail with the error of that parser, and a run whose
  loading or feature engineering fails ends with that error and no table.
\<close>

theorem load_is_the_parser_call:
  "load_data rd src = rd src
   \<and> (''Dt_Customer'' \<notin> set (columns t1) \<longrightarrow>
        feature_engineering tdt t1 = Inl (KeyError [''Dt_Customer'']))
   \<and> (getitem t2 ''Dt_Customer'' = Inr d \<longrightarrow> tdt d = Inl e2 \<longrightarrow>
        feature_engineering tdt t2 = Inl e2)
   \<and> (load_data rd (chosen_file i) = Inl e3 \<longrightarrow> script rd tdt i = Inl e3)
   \<and> (load_data rd (chosen_file i) = Inr t4 \<longrightarrow> feature_engineering tdt t4 = Inl e4 \<longrightarrow>
        script rd tdt i = Inl e4)"
  using feature_engineering_without_dates[of t1 tdt]
    feature_engineering_bad_date[of t2 d tdt e2] script_stops(1)[of rd i e3 tdt]
    script_stops(2)[of rd i t4 tdt e4]
  by (simp add: load_data_def)

lemma load_text_cells: "load_data example_read_csv (Uploaded TextCellsFile) = Inr text_cells_table"
  by (simp add: load_data_def)

theorem load_is_the_parser_call_witness:
  "load_data example_read_csv (Uploaded EmptyFile) = Inl EmptyDataError
   \<and> load_data example_read_csv (Path ''missing.csv'') = Inl FileNotFoundError
   \<and> ''Dt_Customer'' \<notin> set (columns tied_ages)
   \<and> feature_engineering iso_to_datetime tied_ages = Inl (KeyError [''Dt_Customer''])
   \<and> getitem text_cells_table ''Dt_Customer'' = Inr [Str ''yesterday'']
   \<and> iso_to_datetime [Str ''yesterday''] = Inl ValueError
   \<and> feature_engineering iso_to_datetime text_cells_table = Inl ValueError
   \<and> script example_read_csv iso_to_datetime (text_cells_upload\<lparr>uploaded_file := Some EmptyFile\<rparr>)
       = Inl EmptyDataError
   \<and> script example_read_csv iso_to_datetime text_cells_upload = Inl ValueError"
proof -
  note T = load_is_the_parser_call
  from T[where rd = example_read_csv and src = "Uploaded EmptyFile"]
  have 1: "load_data example_read_csv (Uploaded EmptyFile) = Inl EmptyDataError" by simp
  from T[where rd = example_read_csv and src = "Path ''missing.csv''"]
  have 2: "load_data example_read_csv (Path ''missing.csv'') = Inl FileNotFoundError" by simp
  have c: "''Dt_Customer'' \<notin> set (columns tied_ages)" by (simp add: tied_ages_def)
  from T[where ?t1.0 = tied_ages and tdt = iso_to_datetime] c
  have 3: "feature_engineering iso_to_datetime tied_ages = Inl (KeyError [''Dt_Customer''])"
    by blast
  have d: "getitem text_cells_table ''Dt_Customer'' = Inr [Str ''yesterday'']"
    by (simp add: getitem_def cell_at_def text_cells_table_def)
  have bad: "iso_to_datetime [Str ''yesterday''] = Inl ValueError"
    by (simp add: iso_to_datetime_def iso_date_def)
  from T[where ?t2.0 = text_cells_table and tdt = iso_to_datetime and d = "[Str ''yesterday'']"
      and ?e2.0 = ValueError] d bad
  have 4: "feature_engineering iso_to_datetime text_cells_table = Inl ValueError" by blast
  have s1: "chosen_file (text_cells_upload\<lparr>uploaded_file := Some EmptyFile\<rparr>) = Uploaded EmptyFile"
    by (simp add: chosen_file_def)
  have s2: "chosen_file text_cells_upload = Uploaded TextCellsFile"
    by (simp add: chosen_file_def text_cells_upload_def)
  from T[where rd = example_read_csv and tdt = iso_to_datetime
      and i = "text_cells_upload\<lparr>uploaded_file := Some EmptyFile\<rparr>" and ?e3.0 = EmptyDataError] 1
  have 5: "script example_read_csv iso_to_datetime
      (text_cells_upload\<lparr>uploaded_file := Some EmptyFile\<rparr>) = Inl EmptyDataError"
    unfolding s1 by blast
  from T[where rd = example_read_csv and tdt = iso_to_datetime and i = text_cells_upload
      and ?t4.0 = text_cells_table and ?e4.0 = ValueError] load_text_cells 4
  have 6: "script example_read_csv iso_to_datetime text_cells_upload = Inl ValueError"
    unfolding s2 by blast
  from 1 2 c 3 d bad 4 5 6 show ?thesis by (intro conjI)
qed

text \<open>
  The example table is what loading and feature engineering make of \<^verbatim>\<open>clean_data.csv\<close>.
\<close>

lemma example_loaded:
  "and_then (load_data example_read_csv (chosen_file no_upload))
     (feature_engineering iso_to_datetime) = Inr example_table"
  by (simp add: chosen_file_def no_upload_def load_data_def example_raw_def
      feature_engineering_def and_then_def getitem_def
      getitems_def setitem_def sum_axis1_def series_sum_def wrap64_def cell_at_def dt_year_def
      dt_month_def int_series_def product_cols_def cmp_cols_def iso_to_datetime_def iso_date_def
      digit_of_def days_in_month_def days_from_civil_def example_defs)

end
